theory Spec2Isabelle
  imports Complex_Main
begin

section \<open>Python values and strings\<close>

text \<open>
  The program is a single Python module, \<^verbatim>\<open>timezones.py\<close>. A Python \<^verbatim>\<open>str\<close> is
  modelled as a \<^typ>\<open>string\<close> whose characters are the code points U+0000 to U+00FF; the
  string methods below are Python's, restricted to that range. An object that may or may
  not be a \<^verbatim>\<open>str\<close> (a value stored in the theme dictionary, the \<^verbatim>\<open>fallback\<close> argument) is
  a \<open>pyobj\<close>: \<open>NonStr\<close> stands for every object for which \<^verbatim>\<open>isinstance(value, str)\<close> is
  false.
\<close>

datatype pyobj = Str string | NonStr

text \<open>\<^verbatim>\<open>str.isspace\<close> on one character: TAB to CR, FS to US and SPACE, NEL and NBSP.\<close>

definition is_space :: "char \<Rightarrow> bool" where
  "is_space c = (let n = (of_char c :: nat) in
      (9 \<le> n \<and> n \<le> 13) \<or> (28 \<le> n \<and> n \<le> 32) \<or> n = 133 \<or> n = 160)"

text \<open>\<^verbatim>\<open>value.strip()\<close>: whitespace is removed at both ends.\<close>

definition strip :: "string \<Rightarrow> string" where
  "strip s = rev (dropWhile is_space (rev (dropWhile is_space s)))"

text \<open>\<^verbatim>\<open>str.lower\<close>: A to Z and the Latin-1 capitals move up by 32.\<close>

definition lower_char :: "char \<Rightarrow> char" where
  "lower_char c = (let n = (of_char c :: nat) in
      if (65 \<le> n \<and> n \<le> 90) \<or> (192 \<le> n \<and> n \<le> 214) \<or> (216 \<le> n \<and> n \<le> 222)
      then char_of (n + 32) else c)"

definition lower :: "string \<Rightarrow> string" where
  "lower s = map lower_char s"

definition startswith :: "string \<Rightarrow> string \<Rightarrow> bool" where
  "startswith s p = (take (length p) s = p)"

section \<open>Theme colors\<close>

subsection \<open>\<^verbatim>\<open>HEX_COLOR_RE\<close> and \<^verbatim>\<open>normalize_hex\<close>\<close>

definition is_hex_digit :: "char \<Rightarrow> bool" where
  "is_hex_digit c = (c \<in> set ''0123456789abcdefABCDEF'')"

definition six_hex :: "string \<Rightarrow> bool" where
  "six_hex s = (length s = 6 \<and> list_all is_hex_digit s)"

definition opt_hash_six_hex :: "string \<Rightarrow> bool" where
  "opt_hash_six_hex s =
     (case s of [] \<Rightarrow> False | c # r \<Rightarrow> (c = CHR ''#'' \<and> six_hex r) \<or> six_hex s)"

text \<open>
  \<^verbatim>\<open>HEX_COLOR_RE = re.compile(r"^#?[0-9a-fA-F]{6}$")\<close>, used through \<^verbatim>\<open>.match\<close>. Python's
  \<^verbatim>\<open>$\<close> matches at the end of the string and also just before a newline that ends the
  string, so the pattern accepts \<^verbatim>\<open>"#aabbcc\n"\<close> as well.
\<close>

definition HEX_COLOR_RE_match :: "string \<Rightarrow> bool" where
  "HEX_COLOR_RE_match v =
     (opt_hash_six_hex v \<or> (v \<noteq> [] \<and> last v = CHR 0x0A \<and> opt_hash_six_hex (butlast v)))"

text \<open>
  \<^verbatim>\<open>
  def normalize_hex(value):
      if not isinstance(value, str):
          return None
      value = value.strip()
      if not HEX_COLOR_RE.match(value):
          return None
      if not value.startswith("#"):
          value = f"#{value}"
      return value.lower()
  \<close>
\<close>

fun normalize_hex :: "pyobj \<Rightarrow> string option" where
  "normalize_hex NonStr = None"
| "normalize_hex (Str raw) =
     (let v = strip raw in
      if \<not> HEX_COLOR_RE_match v then None
      else Some (lower (if \<not> startswith v ''#'' then ''#'' @ v else v)))"

subsection \<open>\<^verbatim>\<open>pick_theme_color\<close>\<close>

text \<open>\<^verbatim>\<open>theme.get(key, default)\<close> on the theme dictionary.\<close>

definition theme_get :: "(string \<rightharpoonup> pyobj) \<Rightarrow> string \<Rightarrow> pyobj \<Rightarrow> pyobj" where
  "theme_get theme key dflt = (case theme key of Some v \<Rightarrow> v | None \<Rightarrow> dflt)"

text \<open>Truth value of a result of \<open>normalize_hex\<close>: \<^verbatim>\<open>None\<close> and \<^verbatim>\<open>""\<close> are false.\<close>

definition truthy :: "string option \<Rightarrow> bool" where
  "truthy r = (case r of None \<Rightarrow> False | Some v \<Rightarrow> v \<noteq> [])"

text \<open>
  \<^verbatim>\<open>
  def pick_theme_color(theme, keys, fallback):
      for key in keys:
          value = normalize_hex(theme.get(key.lower(), ""))
          if value:
              return value
      return normalize_hex(fallback) or "#000000"
  \<close>
\<close>

fun pick_theme_color :: "(string \<rightharpoonup> pyobj) \<Rightarrow> string list \<Rightarrow> pyobj \<Rightarrow> string" where
  "pick_theme_color theme [] fallback =
     (let r = normalize_hex fallback in if truthy r then the r else ''#000000'')"
| "pick_theme_color theme (key # keys) fallback =
     (let val = normalize_hex (theme_get theme (lower key) (Str '''')) in
      if truthy val then the val else pick_theme_color theme keys fallback)"

section \<open>Python numbers\<close>

subsection \<open>Floats\<close>

text \<open>
  A Python \<^verbatim>\<open>float\<close> is an IEEE 754 binary64 number. It is modelled by the real number it
  denotes, and every arithmetic operation of the program on floats is the exact operation
  followed by \<open>fl\<close>, the rounding to the nearest number with a 53-bit significand, ties to
  the even significand. A decimal literal of the source such as \<^verbatim>\<open>0.11\<close> is \<open>fl 0.11\<close>, the
  double nearest to it. The exponent range is not modelled (no overflow, no subnormal
  numbers, no infinities and no NaN): the quantities of this program are colour channels,
  mixing ratios and hours, far from the limits. The library functions \<^verbatim>\<open>pow\<close> and
  \<^verbatim>\<open>math.cos\<close> are taken as correctly rounded.

  \<open>binexp x\<close> is the binary exponent of a positive \<open>x\<close>: \<open>2 powi binexp x \<le> x < 2 powi (binexp x + 1)\<close>.
\<close>

function binexp :: "real \<Rightarrow> int" where
  "binexp x = (if 2 \<le> x then binexp (x / 2) + 1
               else if 0 < x \<and> x < 1 then binexp (x * 2) - 1
               else 0)"
  by pat_completeness auto
termination
proof (relation "measure (\<lambda>x. if 1 \<le> x then nat \<lfloor>x\<rfloor> else nat \<lceil>1 / x\<rceil>)")
  show "wf (measure (\<lambda>x::real. if 1 \<le> x then nat \<lfloor>x\<rfloor> else nat \<lceil>1 / x\<rceil>))" by simp
next
  fix x :: real assume "2 \<le> x"
  then have "\<lfloor>x / 2\<rfloor> < \<lfloor>x\<rfloor>" by linarith
  moreover have "0 \<le> \<lfloor>x / 2\<rfloor>" using \<open>2 \<le> x\<close> by simp
  ultimately show "(x / 2, x) \<in> measure (\<lambda>x. if 1 \<le> x then nat \<lfloor>x\<rfloor> else nat \<lceil>1 / x\<rceil>)"
    using \<open>2 \<le> x\<close> by simp
next
  fix x :: real assume a: "\<not> 2 \<le> x" "0 < x \<and> x < 1"
  then have b: "1 < 1 / x" by simp
  show "(x * 2, x) \<in> measure (\<lambda>x. if 1 \<le> x then nat \<lfloor>x\<rfloor> else nat \<lceil>1 / x\<rceil>)"
  proof (cases "1 \<le> x * 2")
    case True
    then have "\<lfloor>x * 2\<rfloor> = 1" using a by linarith
    moreover have "2 \<le> \<lceil>1 / x\<rceil>" using b by linarith
    ultimately show ?thesis using True a by simp
  next
    case False
    define y where "y = 1 / x"
    have "1 < y" using b by (simp add: y_def)
    then have "\<lceil>y / 2\<rceil> < \<lceil>y\<rceil>"
    proof (cases "y \<le> 2")
      case True
      then have le1: "\<lceil>y / 2\<rceil> \<le> 1" by (simp add: ceiling_le_iff)
      have "1 < \<lceil>y\<rceil>" using \<open>1 < y\<close> by (simp add: less_ceiling_iff)
      with le1 show ?thesis by (rule le_less_trans)
    next
      case False
      then have "y / 2 \<le> y - 1" by simp
      then have "\<lceil>y / 2\<rceil> \<le> \<lceil>y - 1\<rceil>" by (rule ceiling_mono)
      also have "\<lceil>y - 1\<rceil> = \<lceil>y\<rceil> - 1" by simp
      finally show ?thesis by (simp only: zle_diff1_eq)
    qed
    moreover have "1 / (x * 2) = y / 2" unfolding y_def by simp
    ultimately have "\<lceil>1 / (x * 2)\<rceil> < \<lceil>1 / x\<rceil>" unfolding y_def by (simp only:)
    moreover have "0 < \<lceil>1 / (x * 2)\<rceil>" using a by simp
    ultimately show ?thesis using False a by simp
  qed
qed

declare binexp.simps [simp del]

text \<open>
  Rounding to the nearest integer, ties to the even one: the rounding of the significand,
  and Python's \<^verbatim>\<open>round(x)\<close> on a float.
\<close>

definition round_half_even :: "real \<Rightarrow> int" where
  "round_half_even x = (let f = \<lfloor>x\<rfloor>; d = x - of_int f in
     if d < 1 / 2 then f else if 1 / 2 < d then f + 1 else if even f then f else f + 1)"

definition fl :: "real \<Rightarrow> real" where
  "fl x = (if x = 0 then 0
           else let u = 2 powi (binexp \<bar>x\<bar> - 52) in of_int (round_half_even (x / u)) * u)"

definition fadd :: "real \<Rightarrow> real \<Rightarrow> real" where
  "fadd a b = fl (a + b)"

definition fsub :: "real \<Rightarrow> real \<Rightarrow> real" where
  "fsub a b = fl (a - b)"

definition fmul :: "real \<Rightarrow> real \<Rightarrow> real" where
  "fmul a b = fl (a * b)"

text \<open>True division \<^verbatim>\<open>a / b\<close>, for a divisor that is not zero.\<close>

definition fdiv :: "real \<Rightarrow> real \<Rightarrow> real" where
  "fdiv a b = fl (a / b)"

text \<open>\<^verbatim>\<open>pow(x, y)\<close> and \<^verbatim>\<open>x ** y\<close> on floats, for a base that is not negative.\<close>

definition py_pow :: "real \<Rightarrow> real \<Rightarrow> real" where
  "py_pow x y = fl (x powr y)"

definition py_cos :: "real \<Rightarrow> real" where
  "py_cos x = fl (cos x)"

text \<open>\<^verbatim>\<open>int(x)\<close> on a float truncates towards zero.\<close>

definition py_int :: "real \<Rightarrow> int" where
  "py_int x = (if 0 \<le> x then \<lfloor>x\<rfloor> else \<lceil>x\<rceil>)"

text \<open>
  \<^verbatim>\<open>x % y\<close> on floats, for \<open>x \<ge> 0\<close> and \<open>y > 0\<close> as in this program: C's \<^verbatim>\<open>fmod\<close>, whose
  result is exact.
\<close>

definition py_fmod :: "real \<Rightarrow> real \<Rightarrow> real" where
  "py_fmod x y = x - of_int \<lfloor>x / y\<rfloor> * y"

text \<open>\<^verbatim>\<open>max(0.0, min(1.0, x))\<close>.\<close>

definition clamp01 :: "real \<Rightarrow> real" where
  "clamp01 x = max 0 (min 1 x)"

subsection \<open>Integers and format specifications\<close>

definition digit_char :: "nat \<Rightarrow> char" where
  "digit_char d = ''0123456789abcdef'' ! d"

text \<open>The digits of \<open>n\<close> in base \<open>b\<close>, most significant first.\<close>

function digits :: "nat \<Rightarrow> nat \<Rightarrow> string" where
  "digits b n = (if b < 2 \<or> n < b then [digit_char n]
                 else digits b (n div b) @ [digit_char (n mod b)])"
  by pat_completeness auto
termination
  by (relation "measure snd") (auto simp add: div_less_dividend)

declare digits.simps [simp del]

text \<open>\<^verbatim>\<open>f"{n}"\<close> for an integer.\<close>

definition fmt_d :: "int \<Rightarrow> string" where
  "fmt_d n = (if n < 0 then ''-'' @ digits 10 (nat (- n)) else digits 10 (nat n))"

text \<open>\<^verbatim>\<open>f"{n:+d}"\<close>: the sign is always written.\<close>

definition fmt_plus_d :: "int \<Rightarrow> string" where
  "fmt_plus_d n = (if n < 0 then ''-'' @ digits 10 (nat (- n)) else ''+'' @ digits 10 (nat n))"

text \<open>Zero padding to width 2; a sign counts for the width.\<close>

definition zero_pad2 :: "string \<Rightarrow> string" where
  "zero_pad2 s = (if length s < 2 then ''0'' @ s else s)"

text \<open>\<^verbatim>\<open>f"{n:02d}"\<close> and \<^verbatim>\<open>f"{n:02x}"\<close>.\<close>

definition fmt_02d :: "int \<Rightarrow> string" where
  "fmt_02d n = (if n < 0 then ''-'' @ digits 10 (nat (- n)) else zero_pad2 (digits 10 (nat n)))"

definition fmt_02x :: "int \<Rightarrow> string" where
  "fmt_02x n = (if n < 0 then ''-'' @ digits 16 (nat (- n)) else zero_pad2 (digits 16 (nat n)))"

section \<open>Exceptions\<close>

text \<open>
  The exceptions the modelled functions can raise. A function that can raise returns
  \<open>error + 'a\<close>; \<open>and_then\<close> sequences two steps and stops at the first exception.
\<close>

datatype error = ValueError | OverflowError | OSError | ZoneInfoNotFoundError string

definition and_then :: "error + 'a \<Rightarrow> ('a \<Rightarrow> error + 'b) \<Rightarrow> error + 'b" where
  "and_then m f = (case m of Inl e \<Rightarrow> Inl e | Inr x \<Rightarrow> f x)"

section \<open>Color arithmetic\<close>

text \<open>The value of a hexadecimal digit.\<close>

definition hex_value :: "char \<Rightarrow> int" where
  "hex_value c = (let n = (of_char c :: int) in
      if 48 \<le> n \<and> n \<le> 57 then n - 48
      else if 97 \<le> n \<and> n \<le> 102 then n - 87
      else n - 55)"

text \<open>
  \<^verbatim>\<open>int(s, 16)\<close>. Python also accepts a sign, surrounding whitespace, a \<^verbatim>\<open>0x\<close> prefix and
  underscores; here every string that is not a non-empty run of hexadecimal digits is
  reported as a \<^verbatim>\<open>ValueError\<close>, so the model raises at least as often as the program.
\<close>

definition py_int16 :: "string \<Rightarrow> error + int" where
  "py_int16 s = (if s \<noteq> [] \<and> list_all is_hex_digit s
                 then Inr (foldl (\<lambda>a c. 16 * a + hex_value c) 0 s)
                 else Inl ValueError)"

text \<open>The slice \<^verbatim>\<open>h[i:j]\<close> for \<open>0 \<le> i \<le> j\<close>.\<close>

definition slice :: "'a list \<Rightarrow> nat \<Rightarrow> nat \<Rightarrow> 'a list" where
  "slice h i j = take (j - i) (drop i h)"

type_synonym rgb = "real \<times> real \<times> real"

text \<open>
  \<^verbatim>\<open>
  def hex_to_rgb(h):
      h = normalize_hex(h) or "#000000"
      h = h.lstrip("#")
      return tuple(int(h[i:i+2], 16) / 255.0 for i in (0, 2, 4))
  \<close>
\<close>

definition hex_to_rgb :: "pyobj \<Rightarrow> error + rgb" where
  "hex_to_rgb h0 =
     (let n = normalize_hex h0;
          h1 = (if truthy n then the n else ''#000000'');
          h = dropWhile (\<lambda>c. c = CHR ''#'') h1
      in and_then (py_int16 (slice h 0 2)) (\<lambda>r.
         and_then (py_int16 (slice h 2 4)) (\<lambda>g.
         and_then (py_int16 (slice h 4 6)) (\<lambda>b.
           Inr (fdiv (of_int r) 255, fdiv (of_int g) 255, fdiv (of_int b) 255)))))"

text \<open>
  \<^verbatim>\<open>
  def rgb_to_hex(rgb):
      return f"#{int(rgb[0]*255):02x}{int(rgb[1]*255):02x}{int(rgb[2]*255):02x}"
  \<close>
\<close>

fun rgb_to_hex :: "rgb \<Rightarrow> string" where
  "rgb_to_hex (r, g, b) =
     ''#'' @ fmt_02x (py_int (fmul r 255)) @ fmt_02x (py_int (fmul g 255))
           @ fmt_02x (py_int (fmul b 255))"

text \<open>
  \<^verbatim>\<open>
  def blend_rgb(a, b, t):
      return tuple(a[i] + (b[i] - a[i]) * t for i in range(3))
  \<close>
\<close>

fun blend_rgb :: "rgb \<Rightarrow> rgb \<Rightarrow> real \<Rightarrow> rgb" where
  "blend_rgb (a0, a1, a2) (b0, b1, b2) t =
     (fadd a0 (fmul (fsub b0 a0) t), fadd a1 (fmul (fsub b1 a1) t), fadd a2 (fmul (fsub b2 a2) t))"

text \<open>
  \<^verbatim>\<open>
  def mix_hex(a, b, t):
      return rgb_to_hex(blend_rgb(hex_to_rgb(a), hex_to_rgb(b), t))
  \<close>
\<close>

definition mix_hex :: "pyobj \<Rightarrow> pyobj \<Rightarrow> real \<Rightarrow> error + string" where
  "mix_hex a b t =
     and_then (hex_to_rgb a) (\<lambda>ra.
     and_then (hex_to_rgb b) (\<lambda>rb.
       Inr (rgb_to_hex (blend_rgb ra rb t))))"

text \<open>
  \<^verbatim>\<open>
  def relative_luminance(hex_color):
      def linear(c):
          return c / 12.92 if c <= 0.04045 else ((c + 0.055) / 1.055) ** 2.4
      r, g, b = hex_to_rgb(hex_color)
      return 0.2126 * linear(r) + 0.7152 * linear(g) + 0.0722 * linear(b)
  \<close>
\<close>

definition linear :: "real \<Rightarrow> real" where
  "linear c = (if c \<le> fl 0.04045 then fdiv c (fl 12.92)
               else py_pow (fdiv (fadd c (fl 0.055)) (fl 1.055)) (fl 2.4))"

definition relative_luminance :: "pyobj \<Rightarrow> error + real" where
  "relative_luminance hex_color =
     and_then (hex_to_rgb hex_color) (\<lambda>(r, g, b).
       Inr (fadd (fadd (fmul (fl 0.2126) (linear r)) (fmul (fl 0.7152) (linear g)))
                 (fmul (fl 0.0722) (linear b))))"

subsection \<open>\<^verbatim>\<open>build_semantic_theme\<close>\<close>

text \<open>The dictionary that \<^verbatim>\<open>build_semantic_theme\<close> returns, one field for each of its keys.\<close>

record semantic_theme =
  bg :: string
  fg :: string
  accent :: string
  cursor :: string
  dim :: string
  surface :: string
  surface2 :: string
  day :: string
  night :: string
  red :: string
  daylight_contrast :: real
  daylight_gamma :: real

text \<open>
  \<^verbatim>\<open>
  def build_semantic_theme(theme):
      bg = pick_theme_color(theme, ["background"], "#1a1b26")
      fg = pick_theme_color(theme, ["foreground", "color15", "color7"], "#a9b1d6")
      accent = pick_theme_color(
          theme, ["accent", "color4", "color12", "selection_background"], "#7aa2f7")
      cursor = pick_theme_color(
          theme, ["cursor", "selection_foreground", "foreground"], "#c0caf5")
      is_light_theme = relative_luminance(bg) > 0.46
      dim = mix_hex(fg, bg, 0.44 if is_light_theme else 0.5)
      surface = mix_hex(bg, fg, 0.09 if is_light_theme else 0.11)
      surface2 = mix_hex(bg, fg, 0.16 if is_light_theme else 0.2)
      day_seed = pick_theme_color(theme, ["color11", "color3", "accent"], accent)
      night_seed = pick_theme_color(theme, ["color4", "accent", "color12"], accent)
      day = mix_hex(day_seed, "#ffffff", 0.16 if is_light_theme else 0.28)
      night = mix_hex(bg, night_seed, 0.42 if is_light_theme else 0.34)
      red = pick_theme_color(theme, ["color1"], "#ef4444")
      return {"bg": bg, "fg": fg, "accent": accent, "cursor": cursor, "dim": dim,
              "surface": surface, "surface2": surface2, "day": day, "night": night,
              "red": red,
              "daylight_contrast": 1.45 if is_light_theme else 1.6,
              "daylight_gamma": 1.1 if is_light_theme else 1.35}
  \<close>
\<close>

definition is_light_theme :: "string \<Rightarrow> error + bool" where
  "is_light_theme bg' = and_then (relative_luminance (Str bg')) (\<lambda>l. Inr (fl 0.46 < l))"

definition build_semantic_theme :: "(string \<rightharpoonup> pyobj) \<Rightarrow> error + semantic_theme" where
  "build_semantic_theme theme =
     (let bg' = pick_theme_color theme [''background''] (Str ''#1a1b26'');
          fg' = pick_theme_color theme [''foreground'', ''color15'', ''color7''] (Str ''#a9b1d6'');
          accent' = pick_theme_color theme
             [''accent'', ''color4'', ''color12'', ''selection_background''] (Str ''#7aa2f7'');
          cursor' = pick_theme_color theme
             [''cursor'', ''selection_foreground'', ''foreground''] (Str ''#c0caf5'')
      in and_then (is_light_theme bg') (\<lambda>light.
         and_then (mix_hex (Str fg') (Str bg') (if light then fl 0.44 else fl 0.5)) (\<lambda>dim'.
         and_then (mix_hex (Str bg') (Str fg') (if light then fl 0.09 else fl 0.11)) (\<lambda>surface'.
         and_then (mix_hex (Str bg') (Str fg') (if light then fl 0.16 else fl 0.2)) (\<lambda>surface2'.
         let day_seed = pick_theme_color theme [''color11'', ''color3'', ''accent''] (Str accent');
             night_seed = pick_theme_color theme [''color4'', ''accent'', ''color12''] (Str accent')
         in
         and_then (mix_hex (Str day_seed) (Str ''#ffffff'') (if light then fl 0.16 else fl 0.28))
           (\<lambda>day'.
         and_then (mix_hex (Str bg') (Str night_seed) (if light then fl 0.42 else fl 0.34))
           (\<lambda>night'.
         let red' = pick_theme_color theme [''color1''] (Str ''#ef4444'')
         in Inr \<lparr> bg = bg', fg = fg', accent = accent', cursor = cursor', dim = dim',
                  surface = surface', surface2 = surface2', day = day', night = night',
                  red = red',
                  daylight_contrast = (if light then fl 1.45 else fl 1.6),
                  daylight_gamma = (if light then fl 1.1 else fl 1.35) \<rparr>)))))))"

section \<open>Module constants\<close>

text \<open>
  The module computes its palette once, when it is loaded, and the functions below read
  the results as global constants:
  \<^verbatim>\<open>
  TC = load_theme_colors()
  THEME = build_semantic_theme(TC)
  DAY   = THEME["day"]
  NIGHT = THEME["night"]
  DAY_RGB = hex_to_rgb(DAY)
  NIGHT_RGB = hex_to_rgb(NIGHT)
  DAYLIGHT_CONTRAST = THEME["daylight_contrast"]
  DAYLIGHT_GAMMA = THEME["daylight_gamma"]
  LOCAL_TZ = get_local_tz()
  \<close>
  The constants are the fields of a record that every modelled function takes as an
  argument; \<open>module_globals\<close> computes them from the theme dictionary and the name of the
  local zone (\<^verbatim>\<open>get_local_tz\<close> asks the operating system and is not modelled).
\<close>

record globals =
  DAY_RGB :: rgb
  NIGHT_RGB :: rgb
  DAYLIGHT_CONTRAST :: real
  DAYLIGHT_GAMMA :: real
  LOCAL_TZ :: string

definition module_globals :: "(string \<rightharpoonup> pyobj) \<Rightarrow> string \<Rightarrow> error + globals" where
  "module_globals TC local_tz =
     and_then (build_semantic_theme TC) (\<lambda>THEME.
     and_then (hex_to_rgb (Str (day THEME))) (\<lambda>day_rgb.
     and_then (hex_to_rgb (Str (night THEME))) (\<lambda>night_rgb.
       Inr \<lparr> DAY_RGB = day_rgb, NIGHT_RGB = night_rgb,
             DAYLIGHT_CONTRAST = daylight_contrast THEME,
             DAYLIGHT_GAMMA = daylight_gamma THEME,
             LOCAL_TZ = local_tz \<rparr>)))"

section \<open>Daylight model\<close>

text \<open>
  \<^verbatim>\<open>
  def contrast_mix(mix):
      mix = (mix - 0.5) * DAYLIGHT_CONTRAST + 0.5
      mix = max(0.0, min(1.0, mix))
      mix = pow(mix, DAYLIGHT_GAMMA)
      return max(0.0, min(1.0, mix))
  \<close>
\<close>

definition contrast_mix :: "globals \<Rightarrow> real \<Rightarrow> real" where
  "contrast_mix G mix =
     (let mix1 = fadd (fmul (fsub mix (fl 0.5)) (DAYLIGHT_CONTRAST G)) (fl 0.5);
          mix2 = clamp01 mix1;
          mix3 = py_pow mix2 (DAYLIGHT_GAMMA G)
      in clamp01 mix3)"

text \<open>
  \<^verbatim>\<open>
  def daylight_mix(hour):
      angle = (hour - 12) / 12 * math.pi
      mix = (math.cos(angle) + 1) / 2
      return contrast_mix(mix)
  \<close>
  The callers pass \<^verbatim>\<open>t.hour\<close>, an integer.
\<close>

definition daylight_mix :: "globals \<Rightarrow> int \<Rightarrow> real" where
  "daylight_mix G hour =
     (let angle = fmul (fdiv (of_int (hour - 12)) 12) (fl pi);
          mix = fdiv (fadd (py_cos angle) 1) 2
      in contrast_mix G mix)"

section \<open>Clock, time zones and dates\<close>

text \<open>
  The functions below read the system clock, the time zone of the operating system and
  the time zone database. All three are inputs of the model.

  \<^item> \<open>clock\<close> gives the readings of the system clock that a call makes, in their order, in
    microseconds since 0001-01-01 00:00:00 UTC: \<open>clock E 0\<close> is the first reading, and
    \<open>after k E\<close> is the environment of the code that runs after \<open>k\<close> readings.
  \<^item> A zone is its UTC offset in seconds as a function of the instant, in whole seconds
    since 0001-01-01 00:00:00 UTC, so that daylight saving time is whatever the database
    says for that instant. \<open>system_zone\<close> is the zone of the C library's \<^verbatim>\<open>localtime\<close>.
  \<^item> \<open>zoneinfo_db\<close> says what \<^verbatim>\<open>ZoneInfo(key)\<close> finds for a key: a zone; no zone of that
    name; a key that is not a normalized relative path, or a file that is not a zone
    file; or a file that cannot be read.

  The library is modelled as CPython 3.11 implements it in C, for clock readings that
  the platform's \<^verbatim>\<open>localtime\<close> and \<^verbatim>\<open>gmtime\<close> convert to a calendar date; leap seconds
  are not modelled.
\<close>

type_synonym zone = "int \<Rightarrow> int"

datatype tz_lookup = Found zone | Missing | Malformed | Unreadable

record env =
  zoneinfo_db :: "string \<Rightarrow> tz_lookup"
  system_zone :: zone
  clock :: "nat \<Rightarrow> int"

definition after :: "nat \<Rightarrow> env \<Rightarrow> env" where
  "after k E = E \<lparr> clock := (\<lambda>i. clock E (k + i)) \<rparr>"

text \<open>
  \<^verbatim>\<open>ZoneInfo(key)\<close> raises \<^verbatim>\<open>ZoneInfoNotFoundError\<close>, which carries the key, when there is
  no such zone, \<^verbatim>\<open>ValueError\<close> for a malformed key or file, and the error of the operating
  system for a file that it cannot read.
\<close>

definition ZoneInfo :: "env \<Rightarrow> string \<Rightarrow> error + zone" where
  "ZoneInfo E key = (case zoneinfo_db E key of
       Found z \<Rightarrow> Inr z
     | Missing \<Rightarrow> Inl (ZoneInfoNotFoundError key)
     | Malformed \<Rightarrow> Inl ValueError
     | Unreadable \<Rightarrow> Inl OSError)"

text \<open>
  A \<^verbatim>\<open>datetime\<close> is its wall-clock reading in microseconds since 0001-01-01 00:00:00. The
  type ends with the year 9999; arithmetic that leaves the range raises
  \<^verbatim>\<open>OverflowError\<close>.
\<close>

type_synonym datetime = int

definition DATETIME_END :: int where
  "DATETIME_END = 3652059 * 86400000000"

definition datetime_ok :: "datetime \<Rightarrow> error + datetime" where
  "datetime_ok dt = (if 0 \<le> dt \<and> dt < DATETIME_END then Inr dt else Inl OverflowError)"

subsection \<open>Naive local time\<close>

text \<open>
  The library's \<^verbatim>\<open>local(u)\<close>: the wall-clock reading of the system zone at the instant
  \<open>u\<close>, in seconds. It raises \<^verbatim>\<open>ValueError\<close> (\<^verbatim>\<open>year 0 is out of range\<close>) when the reading
  is not in the years 1 to 9999.
\<close>

definition local_seconds :: "env \<Rightarrow> int \<Rightarrow> error + int" where
  "local_seconds E u = (let r = u + system_zone E u in
       if 0 \<le> r \<and> r < 3652059 * 86400 then Inr r else Inl ValueError)"

text \<open>
  A naive \<^verbatim>\<open>datetime\<close> carries, besides its wall-clock reading, the \<^verbatim>\<open>fold\<close> attribute
  that tells the two passes of a repeated hour apart.
\<close>

record naive =
  naive_wall :: datetime
  naive_fold :: bool

text \<open>
  \<^verbatim>\<open>datetime.now()\<close>. The library converts the clock to local time and then, to set
  \<^verbatim>\<open>fold\<close>, also the instant 24 hours earlier and, if the zone moved its clock back in
  between, the instant before the current one by that amount; each conversion must be
  in range.
\<close>

definition datetime_now_naive :: "env \<Rightarrow> error + naive" where
  "datetime_now_naive E =
     (let t = clock E 0 div 1000000;
          us = clock E 0 mod 1000000
      in and_then (local_seconds E t) (\<lambda>result_seconds.
         and_then (local_seconds E (t - 86400)) (\<lambda>probe_seconds.
           let transition = result_seconds - probe_seconds - 86400 in
           if transition < 0
           then and_then (local_seconds E (t + transition)) (\<lambda>probe2.
                  Inr \<lparr> naive_wall = result_seconds * 1000000 + us,
                        naive_fold = (probe2 = result_seconds) \<rparr>)
           else Inr \<lparr> naive_wall = result_seconds * 1000000 + us, naive_fold = False \<rparr>)))"

text \<open>
  The library's \<^verbatim>\<open>local_to_seconds\<close>: the instant \<open>u\<close> at which the system zone shows the
  wall-clock reading \<open>t\<close>, both in seconds; it solves \<open>t = local(u)\<close> with at most four
  conversions, each of which must be in range. \<open>solve_other\<close> is its second half, which
  tries the other offset \<open>b\<close> seen around \<open>t\<close>.
\<close>

definition solve_other :: "env \<Rightarrow> int \<Rightarrow> bool \<Rightarrow> int \<Rightarrow> int \<Rightarrow> int \<Rightarrow> error + int" where
  "solve_other E t fld u1 t1 b =
     (let u2 = t - b in
      and_then (local_seconds E u2) (\<lambda>t2.
        if t2 = t then Inr u2
        else if t1 = t then Inr u1
        else Inr (if fld then min u1 u2 else max u1 u2)))"

definition local_to_seconds :: "env \<Rightarrow> int \<Rightarrow> bool \<Rightarrow> error + int" where
  "local_to_seconds E t fld =
     and_then (local_seconds E t) (\<lambda>lt.
       let a = lt - t;
           u1 = t - a
       in and_then (local_seconds E u1) (\<lambda>t1.
            if t1 = t
            then let u2 = (if fld then u1 + 86400 else u1 - 86400) in
                 and_then (local_seconds E u2) (\<lambda>lt2.
                   let b = lt2 - u2 in
                   if a = b then Inr u1 else solve_other E t fld u1 t1 b)
            else solve_other E t fld u1 t1 (t1 - u1)))"

subsection \<open>Aware time\<close>

text \<open>
  An aware \<^verbatim>\<open>datetime\<close> that a conversion has produced: its wall-clock reading and the
  instant it stands for, in microseconds.
\<close>

record aware =
  aware_wall :: datetime
  instant :: int

text \<open>\<^verbatim>\<open>zone.fromutc(dt)\<close> for the UTC reading \<open>utc\<close>: the wall clock must be in range.\<close>

definition fromutc :: "zone \<Rightarrow> int \<Rightarrow> error + aware" where
  "fromutc z utc =
     and_then (datetime_ok (utc + 1000000 * z (utc div 1000000))) (\<lambda>w.
       Inr \<lparr> aware_wall = w, instant = utc \<rparr>)"

text \<open>
  \<^verbatim>\<open>now.astimezone(zone)\<close> for a naive \<^verbatim>\<open>now\<close>: the library finds the instant of the local
  reading, takes the offset of the system zone there (a \<^verbatim>\<open>timezone\<close>, whose offset must
  be strictly between minus and plus 24 hours), subtracts it, and converts the UTC
  reading to the zone.
\<close>

definition astimezone :: "env \<Rightarrow> naive \<Rightarrow> zone \<Rightarrow> error + aware" where
  "astimezone E now z =
     and_then (local_to_seconds E (naive_wall now div 1000000) (naive_fold now)) (\<lambda>seconds.
       let off = system_zone E seconds in
       if - 86400 < off \<and> off < 86400
       then and_then (datetime_ok (naive_wall now - 1000000 * off)) (\<lambda>utc. fromutc z utc)
       else Inl ValueError)"

text \<open>
  \<^verbatim>\<open>dt.utcoffset()\<close> for an aware \<^verbatim>\<open>dt\<close> in a zone. Python raises \<^verbatim>\<open>ValueError\<close> unless the
  offset is strictly between minus and plus 24 hours.
\<close>

definition utcoffset :: "zone \<Rightarrow> aware \<Rightarrow> error + int" where
  "utcoffset z dt = (let off = z (instant dt div 1000000) in
       if - 86400 < off \<and> off < 86400 then Inr off else Inl ValueError)"

text \<open>
  \<^verbatim>\<open>datetime.now(zone)\<close>: the UTC reading of the clock, which must be in the years 1 to
  9999 (\<^verbatim>\<open>ValueError\<close>), converted by \<^verbatim>\<open>zone.fromutc\<close>. The callers only do arithmetic on
  the result and read its hour and minute, and arithmetic on an aware \<^verbatim>\<open>datetime\<close> is
  arithmetic on its wall clock, so the model returns the wall clock.
\<close>

definition datetime_now :: "env \<Rightarrow> zone \<Rightarrow> error + datetime" where
  "datetime_now E z =
     (if 0 \<le> clock E 0 \<and> clock E 0 < DATETIME_END
      then and_then (fromutc z (clock E 0)) (\<lambda>dt. Inr (aware_wall dt))
      else Inl ValueError)"

text \<open>
  \<^verbatim>\<open>timedelta(hours=h)\<close>, in microseconds. The library splits a float into its integer
  part and its fraction (exactly), takes the integer part times 3600000000 exactly,
  multiplies the fraction by 3600000000 in floating point, and rounds that product to
  the nearest microsecond, ties to even; for an integer \<open>h\<close> the fraction is 0. More than
  999999999 days raise \<^verbatim>\<open>OverflowError\<close>.
\<close>

definition timedelta_hours :: "real \<Rightarrow> error + int" where
  "timedelta_hours h =
     (let intpart = py_int h;
          fracpart = h - of_int intpart;
          us = intpart * 3600000000 + round_half_even (fmul 3600000000 fracpart)
      in if - 999999999 * 86400000000 \<le> us \<and> us < 1000000000 * 86400000000
         then Inr us else Inl OverflowError)"

text \<open>\<^verbatim>\<open>dt + timedelta(hours=h)\<close>.\<close>

definition plus_hours :: "datetime \<Rightarrow> real \<Rightarrow> error + datetime" where
  "plus_hours dt h = and_then (timedelta_hours h) (\<lambda>td. datetime_ok (dt + td))"

definition hour_of :: "datetime \<Rightarrow> int" where
  "hour_of dt = (dt div 3600000000) mod 24"

definition minute_of :: "datetime \<Rightarrow> int" where
  "minute_of dt = (dt div 60000000) mod 60"

text \<open>\<^verbatim>\<open>dt.strftime("%H:%M")\<close>.\<close>

definition strftime_HM :: "datetime \<Rightarrow> string" where
  "strftime_HM dt = fmt_02d (hour_of dt) @ '':'' @ fmt_02d (minute_of dt)"

section \<open>Labels\<close>

text \<open>
  \<^verbatim>\<open>
  def get_offset_str(remote_tz):
      now = datetime.now()
      local_off = now.astimezone(ZoneInfo(LOCAL_TZ)).utcoffset().total_seconds()
      remote_off = now.astimezone(ZoneInfo(remote_tz)).utcoffset().total_seconds()
      diff_secs = remote_off - local_off
      diff_h = int(diff_secs / 3600)
      diff_m = int((abs(diff_secs) % 3600) / 60)
      if diff_h == 0 and diff_m == 0:
          return "Local"
      if diff_m == 0:
          return f"{diff_h:+d}h"
      sign = "+" if diff_secs >= 0 else "-"
      return f"{sign}{abs(diff_h)}h{diff_m:02d}m"
  \<close>
  \<^verbatim>\<open>total_seconds()\<close> returns a float, so the arithmetic on the offsets is on floats.
\<close>

definition get_offset_str :: "env \<Rightarrow> globals \<Rightarrow> string \<Rightarrow> error + string" where
  "get_offset_str E G remote_tz =
     and_then (datetime_now_naive E) (\<lambda>now.
     and_then (ZoneInfo E (LOCAL_TZ G)) (\<lambda>local_zone.
     and_then (astimezone E now local_zone) (\<lambda>local_now.
     and_then (utcoffset local_zone local_now) (\<lambda>local_off.
     and_then (ZoneInfo E remote_tz) (\<lambda>remote_zone.
     and_then (astimezone E now remote_zone) (\<lambda>remote_now.
     and_then (utcoffset remote_zone remote_now) (\<lambda>remote_off.
       let diff_secs = fsub (of_int remote_off) (of_int local_off);
           diff_h = py_int (fdiv diff_secs 3600);
           diff_m = py_int (fdiv (py_fmod \<bar>diff_secs\<bar> 3600) 60)
       in Inr (if diff_h = 0 \<and> diff_m = 0 then ''Local''
               else if diff_m = 0 then fmt_plus_d diff_h @ ''h''
               else (if 0 \<le> diff_secs then ''+'' else ''-'')
                    @ fmt_d \<bar>diff_h\<bar> @ ''h'' @ fmt_02d diff_m @ ''m''))))))))"

text \<open>The separator \<^verbatim>\<open>" \<cdot> "\<close>: a middle dot, U+00B7, between two spaces.\<close>

definition middle_dot :: string where
  "middle_dot = [CHR '' '', CHR 0xB7, CHR '' '']"

text \<open>
  \<^verbatim>\<open>
  def format_slider_label(hours_offset):
      local_now = datetime.now(ZoneInfo(LOCAL_TZ))
      target_time = local_now + timedelta(hours=hours_offset)
      time_str = target_time.strftime("%H:%M")
      total_minutes = int(round(hours_offset * 60))
      if total_minutes == 0:
          return f"{time_str} \<cdot> Now"
      sign = "+" if total_minutes > 0 else "-"
      abs_minutes = abs(total_minutes)
      hours, minutes = divmod(abs_minutes, 60)
      if hours and minutes:
          rel = f"{sign}{hours}h{minutes:02d}m"
      elif hours:
          rel = f"{sign}{hours}h"
      else:
          rel = f"{sign}{minutes}m"
      return f"{time_str} \<cdot> {rel} from now"
  \<close>
\<close>

definition format_slider_label :: "env \<Rightarrow> globals \<Rightarrow> real \<Rightarrow> error + string" where
  "format_slider_label E G hours_offset =
     and_then (ZoneInfo E (LOCAL_TZ G)) (\<lambda>local_zone.
     and_then (datetime_now E local_zone) (\<lambda>local_now.
     and_then (plus_hours local_now hours_offset) (\<lambda>target_time.
       let time_str = strftime_HM target_time;
           total_minutes = round_half_even (fmul hours_offset 60)
       in if total_minutes = 0 then Inr (time_str @ middle_dot @ ''Now'')
          else
            let sign = (if 0 < total_minutes then ''+'' else ''-'');
                abs_minutes = \<bar>total_minutes\<bar>;
                hours = abs_minutes div 60;
                minutes = abs_minutes mod 60;
                rel = (if hours \<noteq> 0 \<and> minutes \<noteq> 0
                         then sign @ fmt_d hours @ ''h'' @ fmt_02d minutes @ ''m''
                       else if hours \<noteq> 0 then sign @ fmt_d hours @ ''h''
                       else sign @ fmt_d minutes @ ''m'')
            in Inr (time_str @ middle_dot @ rel @ '' from now''))))"

section \<open>Status strip\<close>

text \<open>The two attributes of a \<^verbatim>\<open>StatusStrip\<close> that its methods read.\<close>

record StatusStrip =
  tz_list :: "string list"
  offset_hours :: real

text \<open>
  \<^verbatim>\<open>
  def _get_average_daylight(self, hour_offset):
      if not self.tz_list:
          return 0.5
      total = 0.0
      for tz in self.tz_list:
          now = datetime.now(ZoneInfo(tz)) + timedelta(hours=self.offset_hours)
          t = now + timedelta(hours=hour_offset)
          total += daylight_mix(t.hour)
      return total / len(self.tz_list)
  \<close>
  \<open>average_loop\<close> is the \<^verbatim>\<open>for\<close> loop, with \<open>tot\<close> for its accumulator \<^verbatim>\<open>total\<close>. Every
  iteration reads the clock once, so a call that returns has made one reading for each
  zone of the list.
\<close>

fun average_loop :: "env \<Rightarrow> globals \<Rightarrow> real \<Rightarrow> int \<Rightarrow> string list \<Rightarrow> real \<Rightarrow> error + real" where
  "average_loop E G offset hour_offset [] tot = Inr tot"
| "average_loop E G offset hour_offset (tz # tzs) tot =
     and_then (ZoneInfo E tz) (\<lambda>z.
     and_then (datetime_now E z) (\<lambda>now0.
     and_then (plus_hours now0 offset) (\<lambda>now.
     and_then (plus_hours now (of_int hour_offset)) (\<lambda>t.
       average_loop (after 1 E) G offset hour_offset tzs
         (fadd tot (daylight_mix G (hour_of t)))))))"

definition get_average_daylight :: "env \<Rightarrow> globals \<Rightarrow> StatusStrip \<Rightarrow> int \<Rightarrow> error + real" where
  "get_average_daylight E G self hour_offset =
     (if tz_list self = [] then Inr (fl 0.5)
      else and_then (average_loop E G (offset_hours self) hour_offset (tz_list self) 0)
             (\<lambda>tot. Inr (fdiv tot (of_nat (length (tz_list self))))))"

text \<open>
  The drawing context records the calls made on it. A drawing is the list of the calls
  made and the exception that ended it, if any: the calls made before an exception have
  taken effect.
  \<^verbatim>\<open>
  def _draw(self, area, cr, width, height):
      segments = 48
      seg_w = width / segments
      radius = 4
      cr.new_sub_path()
      cr.arc(radius, radius, radius, math.pi, 1.5 * math.pi)
      cr.arc(width - radius, radius, radius, 1.5 * math.pi, 0)
      cr.arc(width - radius, height - radius, radius, 0, 0.5 * math.pi)
      cr.arc(radius, height - radius, radius, 0.5 * math.pi, math.pi)
      cr.close_path()
      cr.clip()
      for i in range(segments):
          hour_offset = -24 + i
          mix = contrast_mix(self._get_average_daylight(hour_offset))
          r, g, b = blend_rgb(NIGHT_RGB, DAY_RGB, mix)
          cr.set_source_rgb(r, g, b)
          cr.rectangle(i * seg_w, 0, seg_w + 1, height)
          cr.fill()
      cx = width / 2
      cr.set_source_rgba(1, 1, 1, 0.6)
      cr.set_line_width(1.5)
      cr.move_to(cx, 0)
      cr.line_to(cx, height)
      cr.stroke()
  \<close>
\<close>

datatype cairo_call =
    New_sub_path
  | Arc real real real real real
  | Close_path
  | Clip
  | Set_source_rgb real real real
  | Rectangle real real real real
  | Fill
  | Set_source_rgba real real real real
  | Set_line_width real
  | Move_to real real
  | Line_to real real
  | Stroke

type_synonym drawing = "cairo_call list \<times> error option"

text \<open>The body of the \<^verbatim>\<open>for\<close> loop of \<^verbatim>\<open>_draw\<close>, over the remaining values of \<open>i\<close>.\<close>

fun draw_segments ::
  "env \<Rightarrow> globals \<Rightarrow> StatusStrip \<Rightarrow> real \<Rightarrow> int \<Rightarrow> nat list \<Rightarrow> drawing" where
  "draw_segments E G self seg_w height [] = ([], None)"
| "draw_segments E G self seg_w height (i # rest) =
     (let hour_offset = - 24 + int i in
      case get_average_daylight E G self hour_offset of
        Inl e \<Rightarrow> ([], Some e)
      | Inr avg \<Rightarrow>
          (case blend_rgb (NIGHT_RGB G) (DAY_RGB G) (contrast_mix G avg) of (r, g, b) \<Rightarrow>
             (case draw_segments (after (length (tz_list self)) E) G self seg_w height rest of
                (calls, raised) \<Rightarrow>
                  ([Set_source_rgb r g b,
                    Rectangle (fmul (of_nat i) seg_w) 0 (fadd seg_w 1) (of_int height),
                    Fill] @ calls, raised))))"

definition draw :: "env \<Rightarrow> globals \<Rightarrow> StatusStrip \<Rightarrow> int \<Rightarrow> int \<Rightarrow> drawing" where
  "draw E G self width height =
     (let segments = 48;
          seg_w = fdiv (of_int width) (of_nat segments);
          radius = 4;
          clip_calls =
            [New_sub_path,
             Arc radius radius radius (fl pi) (fmul (fl 1.5) (fl pi)),
             Arc (of_int width - radius) radius radius (fmul (fl 1.5) (fl pi)) 0,
             Arc (of_int width - radius) (of_int height - radius) radius 0
                 (fmul (fl 0.5) (fl pi)),
             Arc radius (of_int height - radius) radius (fmul (fl 0.5) (fl pi)) (fl pi),
             Close_path, Clip]
      in case draw_segments E G self seg_w height [0..<segments] of
           (calls, Some e) \<Rightarrow> (clip_calls @ calls, Some e)
         | (calls, None) \<Rightarrow>
             (let cx = fdiv (of_int width) 2 in
              (clip_calls @ calls @
               [Set_source_rgba 1 1 1 (fl 0.6), Set_line_width (fl 1.5),
                Move_to cx 0, Line_to cx (of_int height), Stroke], None)))"

text \<open>The gradient strip that a drawing shows: the colors set, in the order of the calls.\<close>

fun strip_colors :: "cairo_call list \<Rightarrow> rgb list" where
  "strip_colors [] = []"
| "strip_colors (Set_source_rgb r g b # calls) = (r, g, b) # strip_colors calls"
| "strip_colors (c # calls) = strip_colors calls"

section \<open>Reference definitions taken from the specification\<close>

text \<open>A normalized color: \<^verbatim>\<open>#\<close> and six lowercase hexadecimal digits.\<close>

definition is_lower_hex_digit :: "char \<Rightarrow> bool" where
  "is_lower_hex_digit c = (c \<in> set ''0123456789abcdef'')"

definition is_norm_hex :: "string \<Rightarrow> bool" where
  "is_norm_hex s = (case s of [] \<Rightarrow> False
      | c # r \<Rightarrow> c = CHR ''#'' \<and> length r = 6 \<and> list_all is_lower_hex_digit r)"

definition spec_lower_hex :: "char \<Rightarrow> char" where
  "spec_lower_hex c =
     (if c = CHR ''A'' then CHR ''a'' else if c = CHR ''B'' then CHR ''b''
      else if c = CHR ''C'' then CHR ''c'' else if c = CHR ''D'' then CHR ''d''
      else if c = CHR ''E'' then CHR ''e'' else if c = CHR ''F'' then CHR ''f'' else c)"

text \<open>
  The specification's \<^verbatim>\<open>normalizeColor\<close>: strip whitespace; an optional \<^verbatim>\<open>#\<close> and then
  exactly six hexadecimal digits give the lowercase \<^verbatim>\<open>#rrggbb\<close>; anything else is absent.
\<close>

definition normalizeColor_spec :: "string \<Rightarrow> string option" where
  "normalizeColor_spec raw =
     (let v = strip raw in
      if length v = 6 \<and> list_all is_hex_digit v then Some (CHR ''#'' # map spec_lower_hex v)
      else if length v = 7 \<and> hd v = CHR ''#'' \<and> list_all is_hex_digit (tl v)
        then Some (CHR ''#'' # map spec_lower_hex (tl v))
      else None)"

text \<open>
  The specification's offset label, as a function of \<open>diff\<close>, the remote UTC offset minus
  the local one in seconds: \<^verbatim>\<open>Local\<close> for 0; the signed hour count and \<^verbatim>\<open>h\<close> for a whole
  number of hours; otherwise the sign of \<open>diff\<close>, the hours of \<open>\<bar>diff\<bar>\<close>, \<^verbatim>\<open>h\<close>, the minutes
  padded to two digits, \<^verbatim>\<open>m\<close>.
\<close>

definition sign_str :: "int \<Rightarrow> string" where
  "sign_str n = (if 0 \<le> n then ''+'' else ''-'')"

definition formatOffsetLabel_spec :: "int \<Rightarrow> string" where
  "formatOffsetLabel_spec diff =
     (if diff = 0 then ''Local''
      else if diff mod 3600 = 0 then sign_str diff @ fmt_d (\<bar>diff\<bar> div 3600) @ ''h''
      else sign_str diff @ fmt_d (\<bar>diff\<bar> div 3600) @ ''h''
           @ fmt_02d ((\<bar>diff\<bar> mod 3600) div 60) @ ''m'')"

text \<open>A number of seconds without its fraction of a minute, truncated towards zero.\<close>

definition whole_minutes :: "int \<Rightarrow> int" where
  "whole_minutes d = (if 0 \<le> d then (d div 60) * 60 else - (((- d) div 60) * 60))"

text \<open>
  The relative part of the slider label for \<open>m \<noteq> 0\<close> minutes as the specification words
  it: the sign, then of the hours (with \<^verbatim>\<open>h\<close>) and the minutes padded to two digits (with
  \<^verbatim>\<open>m\<close>) those that are not zero.
\<close>

definition sliderRel_spec :: "int \<Rightarrow> string" where
  "sliderRel_spec m =
     (let h = \<bar>m\<bar> div 60; mm = \<bar>m\<bar> mod 60 in
      (if 0 < m then ''+'' else ''-'')
      @ (if h \<noteq> 0 then fmt_d h @ ''h'' else '''')
      @ (if mm \<noteq> 0 then fmt_02d mm @ ''m'' else ''''))"

text \<open>The same, with the minutes padded only when they follow the hours.\<close>

definition sliderRel_unpadded :: "int \<Rightarrow> string" where
  "sliderRel_unpadded m =
     (let h = \<bar>m\<bar> div 60; mm = \<bar>m\<bar> mod 60 in
      (if 0 < m then ''+'' else ''-'')
      @ (if h \<noteq> 0 then fmt_d h @ ''h'' else '''')
      @ (if mm \<noteq> 0 then (if h \<noteq> 0 then fmt_02d mm else fmt_d mm) @ ''m'' else ''''))"

section \<open>Example inputs\<close>

text \<open>
  The constants that the module derives from an empty theme, for a machine whose local
  zone is UTC and for one whose local zone is \<^verbatim>\<open>America/Guyana\<close>.
\<close>

definition dark_globals :: globals where
  "dark_globals = \<lparr> DAY_RGB = (fdiv 159 255, fdiv 188 255, fdiv 249 255),
                    NIGHT_RGB = (fdiv 58 255, fdiv 72 255, fdiv 109 255),
                    DAYLIGHT_CONTRAST = fl 1.6, DAYLIGHT_GAMMA = fl 1.35,
                    LOCAL_TZ = ''UTC'' \<rparr>"

definition guyana_globals :: globals where
  "guyana_globals = dark_globals \<lparr> LOCAL_TZ := ''America/Guyana'' \<rparr>"

text \<open>
  An excerpt of the time zone database, as it stands for the instants from 1952 on.
  \<^verbatim>\<open>Asia/Tokyo\<close> is 9 hours and \<^verbatim>\<open>Australia/Darwin\<close> 9 hours 30 minutes ahead of UTC.
  \<^verbatim>\<open>America/Guyana\<close> was 3 hours 45 minutes behind UTC until 1975-08-01 03:45 UTC, then 3
  hours until 1992-03-29 04:00 UTC, and is 4 hours behind since. \<^verbatim>\<open>Africa/Monrovia\<close> kept
  Monrovia mean time, 44 minutes 30 seconds behind UTC, until 1972-01-07 00:44:30 UTC, and
  is on UTC since. The empty key is not a relative path to a zone file.
\<close>

definition America_Guyana :: zone where
  "America_Guyana t = (if t < 62311693500 then - 13500
                       else if t < 62837438400 then - 10800 else - 14400)"

definition Africa_Monrovia :: zone where
  "Africa_Monrovia t = (if t < 62199189870 then - 2670 else 0)"

definition example_db :: "string \<Rightarrow> tz_lookup" where
  "example_db key =
     (if key = ''UTC'' then Found (\<lambda>t. 0)
      else if key = ''Asia/Tokyo'' then Found (\<lambda>t. 32400)
      else if key = ''Australia/Darwin'' then Found (\<lambda>t. 34200)
      else if key = ''America/Guyana'' then Found America_Guyana
      else if key = ''Africa/Monrovia'' then Found Africa_Monrovia
      else if key = '''' then Malformed
      else Missing)"

text \<open>
  A machine on UTC whose clock reads 2026-11-04 12:00:00 UTC, and a machine in Guyana
  whose clock reads 1970-01-01 00:00:00 UTC, the value of a clock that was never set. Both
  clocks advance by 250 microseconds from one reading to the next.
\<close>

definition example_env :: env where
  "example_env = \<lparr> zoneinfo_db = example_db, system_zone = (\<lambda>t. 0),
                    clock = (\<lambda>n. 63929390400000000 + 250 * int n) \<rparr>"

definition epoch_env :: env where
  "epoch_env = \<lparr> zoneinfo_db = example_db, system_zone = America_Guyana,
                  clock = (\<lambda>n. 62135596800000000 + 250 * int n) \<rparr>"

text \<open>
  A channel value \<open>n\<close> survives the two conversions when \<^verbatim>\<open>int((n / 255.0) * 255)\<close> is \<open>n\<close>
  again.
\<close>

definition channel_round_trip :: "int \<Rightarrow> bool" where
  "channel_round_trip n = (py_int (fmul (fdiv (of_int n) 255) 255) = n)"

section \<open>Properties of the floating-point model\<close>

lemma binexp_bounds: "0 < x \<Longrightarrow> 2 powi (binexp x) \<le> x \<and> x < 2 powi (binexp x + 1)"
proof (induction x rule: binexp.induct)
  case (1 x)
  show ?case
  proof (cases "2 \<le> x")
    case True
    then have e: "binexp x = binexp (x / 2) + 1" by (subst binexp.simps) simp
    have "0 < x / 2" using True by simp
    from "1.IH"(1) [OF True this]
    have ih: "2 powi (binexp (x / 2)) \<le> x / 2 \<and> x / 2 < 2 powi (binexp (x / 2) + 1)" .
    have s: "2 powi (binexp (x / 2) + 1 + 1) = 2 * (2::real) powi (binexp (x / 2) + 1)"
      "2 powi (binexp (x / 2) + 1) = 2 * (2::real) powi (binexp (x / 2))"
      by (simp_all add: power_int_add)
    show ?thesis using ih unfolding e s by linarith
  next
    case False
    show ?thesis
    proof (cases "x < 1")
      case True
      with "1.prems" False have e: "binexp x = binexp (x * 2) - 1"
        by (subst binexp.simps) simp
      have c: "0 < x \<and> x < 1" using True "1.prems" by simp
      have "0 < x * 2" using "1.prems" by simp
      from "1.IH"(2) [OF False c this]
      have ih: "2 powi (binexp (x * 2)) \<le> x * 2 \<and> x * 2 < 2 powi (binexp (x * 2) + 1)" .
      have s: "2 powi (binexp (x * 2) + 1) = 2 * (2::real) powi (binexp (x * 2))"
        "(2::real) powi (binexp (x * 2) - 1) = 2 powi (binexp (x * 2)) / 2"
        by (simp_all add: power_int_add power_int_diff)
      have t: "binexp (x * 2) - 1 + 1 = binexp (x * 2)" by simp
      show ?thesis using ih unfolding e t s by linarith
    next
      case False
      with \<open>\<not> 2 \<le> x\<close> have e: "binexp x = 0" by (subst binexp.simps) simp
      show ?thesis using False \<open>\<not> 2 \<le> x\<close> by (simp add: e)
    qed
  qed
qed

lemma powi2_less_cancel: "(2::real) powi a < 2 powi b \<Longrightarrow> a < b"
proof (rule ccontr)
  assume l: "(2::real) powi a < 2 powi b" and "\<not> a < b"
  then have "b \<le> a" by simp
  then have "(2::real) powi b \<le> 2 powi a" by (rule power_int_increasing) simp
  with l show False by simp
qed

lemma powi_le_less_unique:
  fixes x :: real
  assumes "2 powi a \<le> x" "x < 2 powi (a + 1)" "2 powi b \<le> x" "x < 2 powi (b + 1)"
  shows "a = b"
proof -
  have "(2::real) powi a < 2 powi (b + 1)" using assms by linarith
  then have "a < b + 1" by (rule powi2_less_cancel)
  moreover have "(2::real) powi b < 2 powi (a + 1)" using assms by linarith
  then have "b < a + 1" by (rule powi2_less_cancel)
  ultimately show ?thesis by simp
qed

lemma binexp_eq: "2 powi e \<le> x \<Longrightarrow> x < 2 powi (e + 1) \<Longrightarrow> binexp x = e"
proof -
  assume a: "2 powi e \<le> x" "x < 2 powi (e + 1)"
  have "0 < (2::real) powi e" by simp
  then have "0 < x" using a by linarith
  from binexp_bounds [OF this] a show ?thesis
    using powi_le_less_unique by blast
qed

lemma binexp_mono: "0 < x \<Longrightarrow> x \<le> y \<Longrightarrow> binexp x \<le> binexp y"
proof -
  assume a: "0 < x" "x \<le> y"
  then have "0 < y" by simp
  from binexp_bounds [OF a(1)] binexp_bounds [OF this] a
  have "(2::real) powi (binexp x) < 2 powi (binexp y + 1)" by linarith
  then have "binexp x < binexp y + 1" by (rule powi2_less_cancel)
  then show ?thesis by simp
qed

lemma rhe_of_int: "round_half_even (of_int k) = k"
  by (simp add: round_half_even_def)

lemma rhe_bounds: "of_int (round_half_even x) \<le> x + 1 / 2 \<and> x - 1 / 2 \<le> of_int (round_half_even x)"
  unfolding round_half_even_def Let_def by (auto; linarith)

lemma rhe_floor: "\<lfloor>x\<rfloor> \<le> round_half_even x \<and> round_half_even x \<le> \<lfloor>x\<rfloor> + 1"
  unfolding round_half_even_def Let_def by auto

lemma rhe_mono: "x \<le> y \<Longrightarrow> round_half_even x \<le> round_half_even y"
proof -
  assume a: "x \<le> y"
  then have "\<lfloor>x\<rfloor> \<le> \<lfloor>y\<rfloor>" by (rule floor_mono)
  then consider "\<lfloor>x\<rfloor> = \<lfloor>y\<rfloor>" | "\<lfloor>x\<rfloor> + 1 \<le> \<lfloor>y\<rfloor>" by linarith
  then show ?thesis
  proof cases
    case 1
    then show ?thesis using a unfolding round_half_even_def Let_def by (auto; linarith)
  next
    case 2
    then show ?thesis using rhe_floor [of x] rhe_floor [of y] by linarith
  qed
qed

lemma rhe_minus: "round_half_even (- x) = - round_half_even x"
proof (cases "x = of_int \<lfloor>x\<rfloor>")
  case True
  then obtain k where "x = of_int k" by blast
  then have "- x = of_int (- k)" by simp
  then show ?thesis using \<open>x = of_int k\<close> rhe_of_int by metis
next
  case False
  then have f: "\<lfloor>- x\<rfloor> = - \<lfloor>x\<rfloor> - 1"
    by (metis ceiling_altdef ceiling_def add_diff_cancel_right' minus_diff_eq neg_equal_iff_equal
        diff_minus_eq_add minus_add_distrib uminus_add_conv_diff)
  have d: "x - of_int \<lfloor>x\<rfloor> \<noteq> 0" using False by simp
  show ?thesis unfolding round_half_even_def Let_def f using d by (auto; linarith?)
qed

lemma fl_minus: "fl (- x) = - fl x"
  by (simp add: fl_def Let_def rhe_minus)

lemma fl_zero: "fl 0 = 0"
  by (simp add: fl_def)

lemma fl_pos:
  assumes "0 < x"
  shows "fl x = of_int (round_half_even (x / 2 powi (binexp x - 52))) * 2 powi (binexp x - 52)"
  using assms by (simp add: fl_def Let_def)

lemma fl_pos_bounds:
  assumes "0 < x"
  shows "2 powi (binexp x) \<le> fl x \<and> fl x \<le> 2 powi (binexp x + 1)"
proof -
  define e where "e = binexp x"
  define u :: real where "u = 2 powi (e - 52)"
  have u: "0 < u" by (simp add: u_def)
  have b: "2 powi e \<le> x" "x < 2 powi (e + 1)"
    using binexp_bounds [OF assms] by (simp_all add: e_def)
  have p: "(2::real) powi e = of_int (2 ^ 52) * u" "(2::real) powi (e + 1) = of_int (2 ^ 53) * u"
    by (simp_all add: u_def power_int_diff power_int_add)
  have "of_int (2 ^ 52) \<le> x / u" using b(1) u by (simp add: p pos_le_divide_eq)
  then have "round_half_even (of_int (2 ^ 52)) \<le> round_half_even (x / u)" by (rule rhe_mono)
  then have l: "2 ^ 52 \<le> round_half_even (x / u)" by (simp only: rhe_of_int)
  have "x / u \<le> of_int (2 ^ 53)" using b(2) u by (simp add: p pos_divide_le_eq)
  then have "round_half_even (x / u) \<le> round_half_even (of_int (2 ^ 53))" by (rule rhe_mono)
  then have h: "round_half_even (x / u) \<le> 2 ^ 53" by (simp only: rhe_of_int)
  have f: "fl x = of_int (round_half_even (x / u)) * u"
    using fl_pos [OF assms] by (simp add: u_def e_def)
  have l': "(of_int (2 ^ 52) :: real) \<le> of_int (round_half_even (x / u))"
    using l by (simp only: of_int_le_iff)
  have h': "(of_int (round_half_even (x / u)) :: real) \<le> of_int (2 ^ 53)"
    using h by (simp only: of_int_le_iff)
  have u0: "0 \<le> u" using u by simp
  have "of_int (2 ^ 52) * u \<le> of_int (round_half_even (x / u)) * u"
    using l' u0 by (rule mult_right_mono)
  moreover have "of_int (round_half_even (x / u)) * u \<le> of_int (2 ^ 53) * u"
    using h' u0 by (rule mult_right_mono)
  ultimately show ?thesis unfolding f e_def [symmetric] p by simp
qed

lemma fl_pos_pos: "0 < x \<Longrightarrow> 0 < fl x"
proof -
  assume a: "0 < x"
  have "0 < (2::real) powi (binexp x)" by simp
  with fl_pos_bounds [OF a] show ?thesis by linarith
qed

lemma fl_mono_pos:
  assumes "0 < x" "x \<le> y"
  shows "fl x \<le> fl y"
proof -
  have y: "0 < y" using assms by simp
  have "binexp x \<le> binexp y" using assms by (rule binexp_mono)
  then consider "binexp x = binexp y" | "binexp x + 1 \<le> binexp y" by linarith
  then show ?thesis
  proof cases
    case 1
    define u :: real where "u = 2 powi (binexp y - 52)"
    have u: "0 < u" by (simp add: u_def)
    have "x / u \<le> y / u" using assms u by (simp add: divide_right_mono)
    then have "round_half_even (x / u) \<le> round_half_even (y / u)" by (rule rhe_mono)
    then have "of_int (round_half_even (x / u)) * u \<le> of_int (round_half_even (y / u)) * u"
      using u by (intro mult_right_mono) simp_all
    then show ?thesis using fl_pos [OF assms(1)] fl_pos [OF y] by (simp add: 1 u_def)
  next
    case 2
    then have "(2::real) powi (binexp x + 1) \<le> 2 powi (binexp y)"
      by (rule power_int_increasing) simp
    with fl_pos_bounds [OF assms(1)] fl_pos_bounds [OF y] show ?thesis by linarith
  qed
qed

lemma fl_mono: "x \<le> y \<Longrightarrow> fl x \<le> fl y"
proof -
  assume a: "x \<le> y"
  consider "0 < x" | "y < 0" | "x \<le> 0" "0 \<le> y" by linarith
  then show ?thesis
  proof cases
    case 1
    then show ?thesis using a by (rule fl_mono_pos)
  next
    case 2
    then have "0 < - y" "- y \<le> - x" using a by simp_all
    then have "fl (- y) \<le> fl (- x)" by (rule fl_mono_pos)
    then show ?thesis by (simp add: fl_minus)
  next
    case 3
    have "fl x \<le> 0"
    proof (cases "x = 0")
      case True
      then show ?thesis by (simp add: fl_zero)
    next
      case False
      then have "0 < - x" using 3 by simp
      then have "0 < fl (- x)" by (rule fl_pos_pos)
      then show ?thesis by (simp add: fl_minus)
    qed
    moreover have "0 \<le> fl y"
    proof (cases "y = 0")
      case True
      then show ?thesis by (simp add: fl_zero)
    next
      case False
      then have "0 < y" using 3 by simp
      then have "0 < fl y" by (rule fl_pos_pos)
      then show ?thesis by simp
    qed
    ultimately show ?thesis by simp
  qed
qed

lemma fl_repr_pos:
  assumes "0 < k" "k < 2 ^ 53"
  shows "fl (of_int k * 2 powi e) = of_int k * 2 powi e"
proof -
  define p where "p = binexp (of_int k)"
  have k: "0 < (of_int k :: real)" using assms by simp
  have b: "2 powi p \<le> (of_int k :: real)" "(of_int k :: real) < 2 powi (p + 1)"
    using binexp_bounds [OF k] by (simp_all add: p_def)
  have "(1::real) \<le> of_int k" using assms(1) by simp
  then have "(2::real) powi 0 < 2 powi (p + 1)" using b(2) by simp
  then have p0: "0 < p + 1" by (rule powi2_less_cancel)
  have "(of_int k :: real) < of_int (2 ^ 53)" using assms(2) by (simp only: of_int_less_iff)
  also have "(of_int (2 ^ 53) :: real) = 2 powi 53" by simp
  finally have "(2::real) powi p < 2 powi 53" using b(1) by linarith
  then have p53: "p < 53" by (rule powi2_less_cancel)
  define q where "q = nat (52 - p)"
  have pq: "p = 52 - int q" using p53 by (simp add: q_def)
  define U :: real where "U = 2 powi (e - int q)"
  have U: "0 < U" by (simp add: U_def)
  have "(2::real) powi e = 2 powi (int q + (e - int q))" by simp
  also have "\<dots> = 2 powi (int q) * 2 powi (e - int q)" by (rule power_int_add) simp
  finally have e: "(2::real) powi e = 2 ^ q * U" by (simp add: U_def)
  define x :: real where "x = of_int k * 2 powi e"
  have x: "0 < x" using k by (simp add: x_def)
  have xU: "x = of_int (k * 2 ^ q) * U" by (simp add: x_def e)
  have pe: "(2::real) powi (p + e) = 2 powi p * 2 powi e"
    "(2::real) powi (p + e + 1) = 2 powi (p + 1) * 2 powi e"
    by (simp_all add: power_int_add)
  have e0: "0 < (2::real) powi e" by simp
  have "2 powi (p + e) \<le> x" unfolding pe x_def using b(1) e0 by (simp only: mult_le_cancel_right_pos)
  moreover have "x < 2 powi (p + e + 1)" unfolding pe x_def using b(2) e0
    by (simp only: mult_less_cancel_right_pos)
  ultimately have ex: "binexp x = p + e" by (rule binexp_eq)
  have ue: "p + e - 52 = e - int q" using pq by simp
  have "x / U = of_int (k * 2 ^ q)" using U by (simp add: xU)
  then have r: "round_half_even (x / U) = k * 2 ^ q" by (simp only: rhe_of_int)
  have "fl x = of_int (round_half_even (x / U)) * U"
    using fl_pos [OF x] by (simp only: ex ue U_def)
  then have "fl x = of_int (k * 2 ^ q) * U" by (simp only: r)
  then have "fl x = x" using xU by (rule trans [OF _ sym])
  then show ?thesis by (simp only: x_def)
qed

lemma fl_repr: "\<bar>k\<bar> < 2 ^ 53 \<Longrightarrow> fl (of_int k * 2 powi e) = of_int k * 2 powi e"
proof -
  assume a: "\<bar>k\<bar> < 2 ^ 53"
  consider "0 < k" | "k = 0" | "k < 0" by linarith
  then show ?thesis
  proof cases
    case 1
    then show ?thesis using a by (intro fl_repr_pos) simp_all
  next
    case 2
    then show ?thesis by (simp add: fl_zero)
  next
    case 3
    then have "fl (of_int (- k) * 2 powi e) = of_int (- k) * 2 powi e"
      using a by (intro fl_repr_pos) simp_all
    then have "fl (- (of_int k * 2 powi e)) = - (of_int k * 2 powi e)" by simp
    then show ?thesis by (simp only: fl_minus neg_equal_iff_equal)
  qed
qed

lemma fl_int: "\<bar>k\<bar> < 2 ^ 53 \<Longrightarrow> fl (of_int k) = of_int k"
  using fl_repr [of k 0] by simp

section \<open>Properties of the color parser\<close>

lemmas char_eval = char_of_def bit_iff_odd

lemma lower_char_hex_all:
  "list_all (\<lambda>c. lower_char c = spec_lower_hex c) ''0123456789abcdefABCDEF''"
  by (simp add: lower_char_def spec_lower_hex_def char_eval)

lemma lower_char_hex: "is_hex_digit c \<Longrightarrow> lower_char c = spec_lower_hex c"
  using lower_char_hex_all unfolding is_hex_digit_def list_all_iff by blast

lemma spec_lower_hex_lower_all:
  "list_all (\<lambda>c. is_lower_hex_digit (spec_lower_hex c)) ''0123456789abcdefABCDEF''"
  by (simp add: is_lower_hex_digit_def spec_lower_hex_def)

lemma spec_lower_hex_lower: "is_hex_digit c \<Longrightarrow> is_lower_hex_digit (spec_lower_hex c)"
  using spec_lower_hex_lower_all unfolding is_hex_digit_def list_all_iff by blast

lemma lower_hash: "lower_char (CHR ''#'') = CHR ''#''"
  by (simp add: lower_char_def)

lemma hash_not_hex: "\<not> is_hex_digit (CHR ''#'')"
  by (simp add: is_hex_digit_def)

lemma lower_hex_string: "list_all is_hex_digit d \<Longrightarrow> map lower_char d = map spec_lower_hex d"
  by (induction d) (simp_all add: lower_char_hex)

lemma norm_hex_string:
  "list_all is_hex_digit d \<Longrightarrow> list_all is_lower_hex_digit (map spec_lower_hex d)"
  by (induction d) (simp_all add: spec_lower_hex_lower)

lemma strip_last_not_space: "strip s \<noteq> [] \<Longrightarrow> \<not> is_space (last (strip s))"
proof -
  assume ne: "strip s \<noteq> []"
  define t where "t = dropWhile is_space (rev (dropWhile is_space s))"
  have "t \<noteq> []" using ne by (simp add: strip_def t_def)
  then have "\<not> is_space (hd t)" unfolding t_def by (rule hd_dropWhile)
  moreover have "last (strip s) = hd t"
    using \<open>t \<noteq> []\<close> by (simp add: strip_def t_def last_rev)
  ultimately show ?thesis by simp
qed

lemma newline_is_space: "is_space (CHR 0x0A)"
  by (simp add: is_space_def)

lemma re_match_stripped: "HEX_COLOR_RE_match (strip s) = opt_hash_six_hex (strip s)"
  using strip_last_not_space [of s] newline_is_space
  by (auto simp add: HEX_COLOR_RE_match_def)

lemma six_hex_no_hash: "six_hex (c # r) \<Longrightarrow> c \<noteq> CHR ''#''"
  using hash_not_hex by (auto simp add: six_hex_def)

lemma opt_hash_six_hex_spec:
  "opt_hash_six_hex v \<longleftrightarrow>
     (length v = 6 \<and> list_all is_hex_digit v) \<or>
     (length v = 7 \<and> hd v = CHR ''#'' \<and> list_all is_hex_digit (tl v))"
proof (cases v)
  case Nil
  then show ?thesis by (simp add: opt_hash_six_hex_def)
next
  case (Cons c r)
  show ?thesis
  proof (cases "c = CHR ''#''")
    case True
    then have "\<not> six_hex (c # r)" using six_hex_no_hash by blast
    then show ?thesis using Cons True hash_not_hex
      by (simp add: opt_hash_six_hex_def six_hex_def)
  next
    case False
    then show ?thesis using Cons
      by (simp add: opt_hash_six_hex_def six_hex_def)
  qed
qed

lemma lower_plain: "list_all is_hex_digit v \<Longrightarrow>
    lower (if \<not> startswith v ''#'' then ''#'' @ v else v) = CHR ''#'' # map spec_lower_hex v"
proof -
  assume h: "list_all is_hex_digit v"
  have "\<not> startswith v ''#''"
  proof (cases v)
    case Nil
    then show ?thesis by (simp add: startswith_def)
  next
    case (Cons c r)
    then have "c \<noteq> CHR ''#''" using h hash_not_hex by auto
    then show ?thesis using Cons by (simp add: startswith_def)
  qed
  then show ?thesis using h by (simp add: lower_def lower_hash lower_hex_string)
qed

lemma lower_hashed: "v \<noteq> [] \<Longrightarrow> hd v = CHR ''#'' \<Longrightarrow> list_all is_hex_digit (tl v) \<Longrightarrow>
    lower (if \<not> startswith v ''#'' then ''#'' @ v else v) = CHR ''#'' # map spec_lower_hex (tl v)"
  by (cases v) (simp_all add: startswith_def lower_def lower_hash lower_hex_string)

lemma normalize_hex_refines: "normalize_hex (Str raw) = normalizeColor_spec raw"
proof -
  define v where "v = strip raw"
  have m: "HEX_COLOR_RE_match v = opt_hash_six_hex v"
    unfolding v_def by (rule re_match_stripped)
  have lhs: "normalize_hex (Str raw) =
      (if \<not> opt_hash_six_hex v then None
       else Some (lower (if \<not> startswith v ''#'' then ''#'' @ v else v)))"
    by (simp add: v_def [symmetric] m Let_def)
  have rhs: "normalizeColor_spec raw =
      (if length v = 6 \<and> list_all is_hex_digit v then Some (CHR ''#'' # map spec_lower_hex v)
       else if length v = 7 \<and> hd v = CHR ''#'' \<and> list_all is_hex_digit (tl v)
         then Some (CHR ''#'' # map spec_lower_hex (tl v))
       else None)"
    by (simp add: normalizeColor_spec_def v_def [symmetric] Let_def)
  consider (plain) "length v = 6 \<and> list_all is_hex_digit v"
    | (hashed) "\<not> (length v = 6 \<and> list_all is_hex_digit v)"
        "length v = 7 \<and> hd v = CHR ''#'' \<and> list_all is_hex_digit (tl v)"
    | (neither) "\<not> (length v = 6 \<and> list_all is_hex_digit v)"
        "\<not> (length v = 7 \<and> hd v = CHR ''#'' \<and> list_all is_hex_digit (tl v))"
    by blast
  then show ?thesis
  proof cases
    case plain
    then have "opt_hash_six_hex v" by (simp add: opt_hash_six_hex_spec)
    then show ?thesis using plain by (simp only: lhs rhs lower_plain simp_thms if_True if_False)
  next
    case hashed
    then have o: "opt_hash_six_hex v" by (simp add: opt_hash_six_hex_spec)
    have ne: "v \<noteq> []" using hashed by auto
    have "lower (if \<not> startswith v ''#'' then ''#'' @ v else v) = CHR ''#'' # map spec_lower_hex (tl v)"
      using ne hashed by (intro lower_hashed) simp_all
    then show ?thesis using hashed o by (simp only: lhs rhs simp_thms if_True if_False)
  next
    case neither
    then have "\<not> opt_hash_six_hex v" by (simp add: opt_hash_six_hex_spec)
    then show ?thesis using neither by (simp only: lhs rhs simp_thms if_True if_False)
  qed
qed

lemma normalize_hex_norm: "normalize_hex v = Some h \<Longrightarrow> is_norm_hex h"
proof (cases v)
  case NonStr
  assume "normalize_hex v = Some h"
  with NonStr show ?thesis by simp
next
  case (Str raw)
  assume "normalize_hex v = Some h"
  with Str have "normalizeColor_spec raw = Some h" by (simp only: normalize_hex_refines)
  then show ?thesis
    by (auto simp add: normalizeColor_spec_def Let_def is_norm_hex_def norm_hex_string
        split: if_splits)
qed

lemma pick_theme_color_norm: "is_norm_hex (pick_theme_color theme keys fallback)"
proof (induction keys)
  case Nil
  show ?case
    by (cases "normalize_hex fallback")
       (auto simp add: truthy_def is_norm_hex_def is_lower_hex_digit_def dest: normalize_hex_norm)
next
  case (Cons key keys)
  then show ?case
    by (cases "normalize_hex (theme_get theme (lower key) (Str ''''))")
       (auto simp add: truthy_def Let_def dest: normalize_hex_norm)
qed

lemma pick_theme_color_default:
  "\<forall>k\<in>set keys. normalize_hex (theme_get theme (lower k) (Str '''')) = None \<Longrightarrow>
   normalize_hex fallback = None \<Longrightarrow> pick_theme_color theme keys fallback = ''#000000''"
  by (induction keys) (simp_all add: truthy_def)

lemmas color_eval = strip_def is_space_def HEX_COLOR_RE_match_def opt_hash_six_hex_def
  six_hex_def is_hex_digit_def startswith_def lower_def lower_char_def char_eval truthy_def
  theme_get_def is_norm_hex_def is_lower_hex_digit_def

text \<open>
  Claim C7. For every string, \<open>normalize_hex\<close> strips the surrounding whitespace and, exactly
  when what is left is an optional \<^verbatim>\<open>#\<close> followed by exactly six hexadecimal digits of
  either case, returns \<^verbatim>\<open>#\<close> with the six digits in lowercase; for every other string it
  returns \<^verbatim>\<open>None\<close>. What it returns is always a normalized color, never a partial one.
\<close>

theorem normalize_hex_spec:
  "normalize_hex (Str raw) = normalizeColor_spec raw \<and>
   (\<forall>h. normalize_hex (Str raw) = Some h \<longrightarrow> is_norm_hex h)"
  using normalize_hex_refines [of raw] normalize_hex_norm [of "Str raw"] by blast

theorem normalize_hex_spec_witness:
  "normalize_hex (Str ''  #AbC123 '') = Some ''#abc123'' \<and> is_norm_hex ''#abc123'' \<and>
   normalizeColor_spec ''  #AbC123 '' = Some ''#abc123''"
  using normalize_hex_spec [of "''  #AbC123 ''"] by (simp add: color_eval)

text \<open>
  Claim C10. \<open>pick_theme_color\<close> returns a normalized \<^verbatim>\<open>#rrggbb\<close> string for every theme
  dictionary, every list of candidate keys and every fallback argument; when no candidate
  key holds a valid color and the fallback is not a valid color either, the result is
  \<^verbatim>\<open>#000000\<close>.
\<close>

theorem pick_theme_color_valid:
  "is_norm_hex (pick_theme_color theme keys fallback) \<and>
   ((\<forall>k\<in>set keys. normalize_hex (theme_get theme (lower k) (Str '''')) = None) \<and>
    normalize_hex fallback = None \<longrightarrow>
    pick_theme_color theme keys fallback = ''#000000'')"
  using pick_theme_color_norm [of theme keys fallback]
    pick_theme_color_default [of keys theme fallback] by blast

theorem pick_theme_color_valid_witness:
  "normalize_hex
      (theme_get [''background'' \<mapsto> Str ''nope''] (lower ''Background'') (Str '''')) = None \<and>
   normalize_hex (Str ''#12345'') = None \<and>
   pick_theme_color [''background'' \<mapsto> Str ''nope''] [''Background''] (Str ''#12345'')
     = ''#000000'' \<and>
   is_norm_hex ''#000000''"
  using pick_theme_color_valid
    [of "[''background'' \<mapsto> Str ''nope'']" "[''Background'']" "Str ''#12345''"]
  by (simp add: color_eval)

section \<open>Properties of the daylight model\<close>

lemma clamp01_range: "0 \<le> clamp01 x \<and> clamp01 x \<le> 1"
  by (simp add: clamp01_def)

lemma clamp01_mono: "x \<le> y \<Longrightarrow> clamp01 x \<le> clamp01 y"
  by (simp add: clamp01_def max_def min_def)

lemma py_pow_mono: "0 \<le> g \<Longrightarrow> 0 \<le> x \<Longrightarrow> x \<le> y \<Longrightarrow> py_pow x g \<le> py_pow y g"
  unfolding py_pow_def by (intro fl_mono powr_mono2)

lemma stretch_mono:
  assumes "0 < c" "x \<le> y"
  shows "fadd (fmul (fsub x h) c) h \<le> fadd (fmul (fsub y h) c) h"
proof -
  have "fsub x h \<le> fsub y h" using assms(2) unfolding fsub_def by (intro fl_mono) simp
  then have "fsub x h * c \<le> fsub y h * c" using assms(1) by (intro mult_right_mono) simp_all
  then have "fmul (fsub x h) c \<le> fmul (fsub y h) c" unfolding fmul_def by (rule fl_mono)
  then show ?thesis unfolding fadd_def by (intro fl_mono) simp
qed

lemma fl_positive_literals: "0 < fl 1.6" "0 < fl 1.35"
  by (simp_all add: fl_pos_pos)

text \<open>
  Claim C5. For every input \<open>mix\<close> and every positive contrast and gamma, \<open>contrast_mix\<close>
  returns a value in the closed interval from 0 to 1.
\<close>

theorem contrast_mix_range:
  "0 < DAYLIGHT_CONTRAST G \<Longrightarrow> 0 < DAYLIGHT_GAMMA G \<Longrightarrow>
   0 \<le> contrast_mix G mix \<and> contrast_mix G mix \<le> 1"
  by (simp add: contrast_mix_def Let_def clamp01_range)

theorem contrast_mix_range_witness:
  "0 \<le> contrast_mix \<lparr>DAY_RGB = (1, 1, 1), NIGHT_RGB = (0, 0, 0), DAYLIGHT_CONTRAST = fl 1.6,
        DAYLIGHT_GAMMA = fl 1.35, LOCAL_TZ = ''UTC''\<rparr> 7 \<and>
   contrast_mix \<lparr>DAY_RGB = (1, 1, 1), NIGHT_RGB = (0, 0, 0), DAYLIGHT_CONTRAST = fl 1.6,
        DAYLIGHT_GAMMA = fl 1.35, LOCAL_TZ = ''UTC''\<rparr> 7 \<le> 1"
  using contrast_mix_range [of "\<lparr>DAY_RGB = (1, 1, 1), NIGHT_RGB = (0, 0, 0),
        DAYLIGHT_CONTRAST = fl 1.6, DAYLIGHT_GAMMA = fl 1.35, LOCAL_TZ = ''UTC''\<rparr>" 7]
    fl_positive_literals
  by simp

text \<open>
  Claim C9. For fixed positive contrast and gamma, \<open>contrast_mix\<close> is monotone: a larger
  input never gives a smaller output.
\<close>

theorem contrast_mix_mono:
  assumes "0 < DAYLIGHT_CONTRAST G" "0 < DAYLIGHT_GAMMA G" "mix1 \<le> mix2"
  shows "contrast_mix G mix1 \<le> contrast_mix G mix2"
proof -
  define s where "s m = fadd (fmul (fsub m (fl 0.5)) (DAYLIGHT_CONTRAST G)) (fl 0.5)" for m
  have "s mix1 \<le> s mix2" unfolding s_def using assms(1,3) by (rule stretch_mono)
  then have c: "clamp01 (s mix1) \<le> clamp01 (s mix2)" by (rule clamp01_mono)
  have "0 \<le> clamp01 (s mix1)" using clamp01_range by blast
  with assms(2) c have "py_pow (clamp01 (s mix1)) (DAYLIGHT_GAMMA G)
      \<le> py_pow (clamp01 (s mix2)) (DAYLIGHT_GAMMA G)"
    by (intro py_pow_mono) simp_all
  then have "clamp01 (py_pow (clamp01 (s mix1)) (DAYLIGHT_GAMMA G))
      \<le> clamp01 (py_pow (clamp01 (s mix2)) (DAYLIGHT_GAMMA G))"
    by (rule clamp01_mono)
  then show ?thesis by (simp add: contrast_mix_def Let_def s_def)
qed

theorem contrast_mix_mono_witness:
  "contrast_mix \<lparr>DAY_RGB = (1, 1, 1), NIGHT_RGB = (0, 0, 0), DAYLIGHT_CONTRAST = fl 1.6,
        DAYLIGHT_GAMMA = fl 1.35, LOCAL_TZ = ''UTC''\<rparr> (1 / 4)
   \<le> contrast_mix \<lparr>DAY_RGB = (1, 1, 1), NIGHT_RGB = (0, 0, 0), DAYLIGHT_CONTRAST = fl 1.6,
        DAYLIGHT_GAMMA = fl 1.35, LOCAL_TZ = ''UTC''\<rparr> (3 / 4)"
  using contrast_mix_mono [of "\<lparr>DAY_RGB = (1, 1, 1), NIGHT_RGB = (0, 0, 0),
        DAYLIGHT_CONTRAST = fl 1.6, DAYLIGHT_GAMMA = fl 1.35, LOCAL_TZ = ''UTC''\<rparr>"
        "1 / 4" "3 / 4"]
    fl_positive_literals
  by simp

section \<open>Properties of the labels\<close>

lemmas float_eval = fadd_def fsub_def fmul_def fdiv_def fl_def binexp.simps
  round_half_even_def Let_def py_int_def

lemmas fmt_eval = fmt_02x_def fmt_02d_def fmt_d_def fmt_plus_d_def zero_pad2_def
  digits.simps digit_char_def

lemmas time_eval = ZoneInfo_def utcoffset_def datetime_now_def datetime_ok_def DATETIME_END_def
  plus_hours_def hour_of_def minute_of_def strftime_HM_def and_then_def
  middle_dot_def local_seconds_def datetime_now_naive_def local_to_seconds_def
  solve_other_def astimezone_def fromutc_def after_def

lemma fl_nonneg: "0 \<le> x \<Longrightarrow> 0 \<le> fl x"
  using fl_mono [of 0 x] by (simp add: fl_zero)

lemma floor_fdiv:
  assumes "0 \<le> a" "a < 2 ^ 40" "0 < b" "b \<le> 4096"
  shows "\<lfloor>fdiv (of_int a) (of_int b)\<rfloor> = a div b"
proof -
  define q where "q = a div b"
  define r where "r = a mod b"
  have a: "a = q * b + r" by (simp add: q_def r_def)
  have r: "0 \<le> r" "r < b" using assms(3) by (simp_all add: r_def)
  have q0: "0 \<le> q" using assms(1,3) by (simp add: q_def pos_imp_zdiv_nonneg_iff)
  have "q * 1 \<le> q * b" using q0 assms(3) by (intro mult_left_mono) simp_all
  then have qa: "q \<le> a" using a r by simp
  have b0: "0 < (of_int b :: real)" using assms(3) by simp
  have x: "(of_int a :: real) / of_int b = of_int q + of_int r / of_int b"
    using b0 by (simp add: a field_simps)
  have "0 \<le> (of_int r :: real) / of_int b" using r b0 by simp
  then have "(of_int q :: real) \<le> of_int a / of_int b" by (simp add: x)
  then have "fl (of_int q) \<le> fl (of_int a / of_int b)" by (rule fl_mono)
  moreover have "fl (of_int q) = of_int q" using q0 qa assms(2) by (intro fl_int) simp
  ultimately have lo: "of_int q \<le> fdiv (of_int a) (of_int b)" by (simp add: fdiv_def)
  have "4096 * r \<le> 4095 * b" using r assms(4) by simp
  then have "(of_int (4096 * r) :: real) \<le> of_int (4095 * b)" by (simp only: of_int_le_iff)
  then have "(of_int r :: real) / of_int b \<le> 4095 / 4096" using b0 by (simp add: field_simps)
  then have "(of_int a :: real) / of_int b \<le> of_int q + 4095 / 4096" by (simp add: x)
  also have "(of_int q :: real) + 4095 / 4096 = of_int (4096 * q + 4095) * 2 powi (- 12)"
    by (simp add: field_simps)
  finally have "fl (of_int a / of_int b) \<le> fl (of_int (4096 * q + 4095) * 2 powi (- 12))"
    by (rule fl_mono)
  moreover have "fl (of_int (4096 * q + 4095) * 2 powi (- 12))
      = of_int (4096 * q + 4095) * 2 powi (- 12)"
    using q0 qa assms(2) by (intro fl_repr) simp
  ultimately have "fdiv (of_int a) (of_int b) \<le> of_int (4096 * q + 4095) * 2 powi (- 12)"
    by (simp add: fdiv_def)
  also have "(of_int (4096 * q + 4095) :: real) * 2 powi (- 12) < of_int q + 1"
    by (simp add: field_simps)
  finally have hi: "fdiv (of_int a) (of_int b) < of_int q + 1" .
  show ?thesis unfolding q_def [symmetric] using lo hi by (intro floor_unique) simp_all
qed

lemma py_int_fdiv_nonneg:
  assumes "0 \<le> a" "a < 2 ^ 40" "0 < b" "b \<le> 4096"
  shows "py_int (fdiv (of_int a) (of_int b)) = a div b"
proof -
  have "0 \<le> (of_int a :: real) / of_int b" using assms by (intro divide_nonneg_pos) simp_all
  then have "0 \<le> fdiv (of_int a) (of_int b)" unfolding fdiv_def by (rule fl_nonneg)
  then show ?thesis using floor_fdiv [OF assms] by (simp add: py_int_def)
qed

lemma py_int_fdiv_neg:
  assumes "a < 0" "- a < 2 ^ 40" "0 < b" "b \<le> 4096"
  shows "py_int (fdiv (of_int a) (of_int b)) = - ((- a) div b)"
proof -
  define y where "y = fdiv (of_int (- a)) (of_int b)"
  have f: "\<lfloor>y\<rfloor> = (- a) div b" unfolding y_def using assms by (intro floor_fdiv) simp_all
  have "0 \<le> (of_int (- a) :: real) / of_int b" using assms by (intro divide_nonneg_pos) simp_all
  then have y0: "0 \<le> y" unfolding y_def fdiv_def by (rule fl_nonneg)
  have "fdiv (of_int a) (of_int b) = fl (- (of_int (- a) / of_int b))" by (simp add: fdiv_def)
  then have e: "fdiv (of_int a) (of_int b) = - y" by (simp only: fl_minus y_def fdiv_def)
  show ?thesis
  proof (cases "y = 0")
    case True
    then show ?thesis using f by (simp add: e py_int_def)
  next
    case False
    then have "- y < 0" using y0 by simp
    then have "py_int (- y) = \<lceil>- y\<rceil>" by (simp add: py_int_def)
    also have "\<dots> = - \<lfloor>y\<rfloor>" by (simp add: ceiling_def)
    finally show ?thesis by (simp add: e f)
  qed
qed

lemma py_fmod_int:
  "0 < b \<Longrightarrow> py_fmod (of_int a) (of_int b) = of_int (a mod b)"
proof -
  assume "0 < b"
  have "\<lfloor>(of_int a :: real) / of_int b\<rfloor> = a div b" by (rule floor_divide_of_int_eq)
  then have "py_fmod (of_int a) (of_int b) = of_int a - of_int (a div b) * of_int b"
    by (simp add: py_fmod_def)
  also have "\<dots> = of_int (a - (a div b) * b)" by simp
  also have "a - (a div b) * b = a mod b" by (simp add: minus_div_mult_eq_mod)
  finally show ?thesis .
qed

lemma diff_secs_eq:
  assumes "\<bar>l\<bar> < 86400" "\<bar>r\<bar> < 86400"
  shows "fsub (of_int r) (of_int l) = of_int (r - l)"
proof -
  have "fl (of_int (r - l)) = of_int (r - l)" using assms by (intro fl_int) simp
  then show ?thesis by (simp add: fsub_def)
qed

lemma diff_h_eq:
  assumes "\<bar>d\<bar> < 172800"
  shows "py_int (fdiv (of_int d) 3600) = (if 0 \<le> d then d div 3600 else - ((- d) div 3600))"
proof (cases "0 \<le> d")
  case True
  then show ?thesis using assms py_int_fdiv_nonneg [of d 3600] by simp
next
  case False
  then show ?thesis using assms py_int_fdiv_neg [of d 3600] by simp
qed

lemma diff_m_eq:
  assumes "\<bar>d\<bar> < 172800"
  shows "py_int (fdiv (py_fmod \<bar>of_int d\<bar> 3600) 60) = (\<bar>d\<bar> mod 3600) div 60"
proof -
  have "py_fmod (of_int \<bar>d\<bar>) (of_int 3600) = of_int (\<bar>d\<bar> mod 3600)"
    by (rule py_fmod_int) simp
  then have m: "py_fmod \<bar>of_int d\<bar> 3600 = of_int (\<bar>d\<bar> mod 3600)" by simp
  have "py_int (fdiv (of_int (\<bar>d\<bar> mod 3600)) (of_int 60)) = (\<bar>d\<bar> mod 3600) div 60"
    by (rule py_int_fdiv_nonneg) simp_all
  then show ?thesis by (simp add: m)
qed

lemma fmt_plus_d_sign: "n \<noteq> 0 \<Longrightarrow> fmt_plus_d n = sign_str n @ fmt_d \<bar>n\<bar>"
  by (simp add: fmt_plus_d_def sign_str_def fmt_d_def)

lemma whole_minutes_nonneg:
  assumes "0 \<le> d"
  shows "0 \<le> whole_minutes d"
    "whole_minutes d = 0 \<longleftrightarrow> d div 3600 = 0 \<and> (d mod 3600) div 60 = 0"
    "whole_minutes d mod 3600 = 0 \<longleftrightarrow> (d mod 3600) div 60 = 0"
    "whole_minutes d div 3600 = d div 3600"
    "(whole_minutes d mod 3600) div 60 = (d mod 3600) div 60"
proof -
  define H where "H = d div 3600"
  define R where "R = d mod 3600"
  define M where "M = R div 60"
  define s where "s = R mod 60"
  have R: "0 \<le> R" "R < 3600" by (simp_all add: R_def)
  have s: "0 \<le> s" "s < 60" by (simp_all add: s_def)
  have dR: "d = 3600 * H + R" by (simp add: H_def R_def)
  have RM: "R = 60 * M + s" by (simp add: M_def s_def)
  have H0: "0 \<le> H" using assms by (simp add: H_def pos_imp_zdiv_nonneg_iff)
  have M0: "0 \<le> M" using R by (simp add: M_def pos_imp_zdiv_nonneg_iff)
  have M60: "M < 60" using R RM s by linarith
  have "d = 60 * (60 * H + M) + s" using dR RM by simp
  then have d60: "d div 60 = 60 * H + M" using s by (rule int_div_pos_eq)
  have w: "whole_minutes d = 3600 * H + 60 * M"
    using assms by (simp add: whole_minutes_def d60)
  have wd: "whole_minutes d div 3600 = H"
    using w M0 M60 by (intro int_div_pos_eq [where r = "60 * M"]) simp_all
  have wm: "whole_minutes d mod 3600 = 60 * M"
    using w M0 M60 by (intro int_mod_pos_eq [where q = H]) simp_all
  show "0 \<le> whole_minutes d" using w H0 M0 by simp
  show "whole_minutes d = 0 \<longleftrightarrow> d div 3600 = 0 \<and> (d mod 3600) div 60 = 0"
    unfolding H_def [symmetric] R_def [symmetric] M_def [symmetric] w using H0 M0 by auto
  show "whole_minutes d mod 3600 = 0 \<longleftrightarrow> (d mod 3600) div 60 = 0"
    unfolding R_def [symmetric] M_def [symmetric] wm by simp
  show "whole_minutes d div 3600 = d div 3600" using wd by (simp add: H_def)
  show "(whole_minutes d mod 3600) div 60 = (d mod 3600) div 60"
    unfolding R_def [symmetric] M_def [symmetric] wm by simp
qed

lemma whole_minutes_minus: "whole_minutes (- d) = - whole_minutes d"
  unfolding whole_minutes_def by (cases "d = 0") auto

lemma whole_minutes_dvd: "60 dvd d \<Longrightarrow> whole_minutes d = d"
  unfolding whole_minutes_def by auto

lemma offset_label_nonneg:
  assumes "0 \<le> d"
  shows "(if d div 3600 = 0 \<and> (d mod 3600) div 60 = 0 then ''Local''
          else if (d mod 3600) div 60 = 0 then fmt_plus_d (d div 3600) @ ''h''
          else ''+'' @ fmt_d \<bar>d div 3600\<bar> @ ''h'' @ fmt_02d ((d mod 3600) div 60) @ ''m'')
         = formatOffsetLabel_spec (whole_minutes d)"
proof -
  have h0: "0 \<le> d div 3600" using assms by (simp add: pos_imp_zdiv_nonneg_iff)
  note w = whole_minutes_nonneg [OF assms]
  have s: "sign_str (whole_minutes d) = ''+''" using w(1) by (simp add: sign_str_def)
  have a: "\<bar>whole_minutes d\<bar> = whole_minutes d" using w(1) by simp
  show ?thesis
    unfolding formatOffsetLabel_spec_def a s w(2) w(3) w(4) w(5)
    using h0 by (auto simp add: fmt_plus_d_def fmt_d_def)
qed

lemma offset_label_neg:
  assumes "d < 0"
  shows "(if - ((- d) div 3600) = 0 \<and> ((- d) mod 3600) div 60 = 0 then ''Local''
          else if ((- d) mod 3600) div 60 = 0 then fmt_plus_d (- ((- d) div 3600)) @ ''h''
          else ''-'' @ fmt_d \<bar>- ((- d) div 3600)\<bar> @ ''h''
               @ fmt_02d (((- d) mod 3600) div 60) @ ''m'')
         = formatOffsetLabel_spec (whole_minutes d)"
proof -
  define e where "e = - d"
  have e: "0 \<le> e" "d = - e" using assms by (simp_all add: e_def)
  have h0: "0 \<le> e div 3600" using e(1) by (simp add: pos_imp_zdiv_nonneg_iff)
  note w = whole_minutes_nonneg [OF e(1)]
  have wd: "whole_minutes d = - whole_minutes e" by (simp add: e(2) whole_minutes_minus)
  have m: "(- whole_minutes e) mod 3600 = 0 \<longleftrightarrow> whole_minutes e mod 3600 = 0"
    by (simp add: mod_eq_0_iff_dvd)
  show ?thesis
  proof (cases "whole_minutes e = 0")
    case True
    then show ?thesis using w(2) by (simp add: wd formatOffsetLabel_spec_def e_def)
  next
    case False
    then have pos: "0 < whole_minutes e" using w(1) by simp
    then have s: "sign_str (- whole_minutes e) = ''-''" by (simp add: sign_str_def)
    have a: "\<bar>- whole_minutes e\<bar> = whole_minutes e" using pos by simp
    have nz: "\<not> (e div 3600 = 0 \<and> (e mod 3600) div 60 = 0)" using False w(2) by simp
    show ?thesis
    proof (cases "(e mod 3600) div 60 = 0")
      case True
      then have "0 < e div 3600" using nz h0 by simp
      then show ?thesis
        unfolding wd formatOffsetLabel_spec_def a s m w(3) w(4) w(5) e_def [symmetric]
        using True pos by (simp add: fmt_plus_d_def fmt_d_def)
    next
      case False
      then show ?thesis
        unfolding wd formatOffsetLabel_spec_def a s m w(3) w(4) w(5) e_def [symmetric]
        using pos h0 by simp
    qed
  qed
qed

lemma utcoffset_range: "utcoffset z dt = Inr off \<Longrightarrow> \<bar>off\<bar> < 86400"
  by (auto simp add: utcoffset_def Let_def split: if_splits)

lemma get_offset_str_value:
  assumes "datetime_now_naive E = Inr now"
    "zoneinfo_db E (LOCAL_TZ G) = Found lz" "astimezone E now lz = Inr local_now"
    "utcoffset lz local_now = Inr local_off"
    "zoneinfo_db E remote_tz = Found rz" "astimezone E now rz = Inr remote_now"
    "utcoffset rz remote_now = Inr remote_off"
  shows "get_offset_str E G remote_tz
         = Inr (formatOffsetLabel_spec (whole_minutes (remote_off - local_off)))"
proof -
  define d where "d = remote_off - local_off"
  have lo: "\<bar>local_off\<bar> < 86400" using assms(4) by (rule utcoffset_range)
  have ro: "\<bar>remote_off\<bar> < 86400" using assms(7) by (rule utcoffset_range)
  have d: "\<bar>d\<bar> < 172800" using lo ro by (simp add: d_def)
  have ds: "fsub (of_int remote_off) (of_int local_off) = of_int d"
    unfolding d_def using lo ro by (rule diff_secs_eq)
  have g: "get_offset_str E G remote_tz =
     Inr (let diff_secs = (of_int d :: real);
              diff_h = py_int (fdiv diff_secs 3600);
              diff_m = py_int (fdiv (py_fmod \<bar>diff_secs\<bar> 3600) 60)
          in if diff_h = 0 \<and> diff_m = 0 then ''Local''
             else if diff_m = 0 then fmt_plus_d diff_h @ ''h''
             else (if 0 \<le> diff_secs then ''+'' else ''-'')
                  @ fmt_d \<bar>diff_h\<bar> @ ''h'' @ fmt_02d diff_m @ ''m'')"
    by (simp add: get_offset_str_def ZoneInfo_def and_then_def assms ds Let_def)
  show ?thesis
  proof (cases "0 \<le> d")
    case True
    then have hd: "py_int (fdiv (of_int d) 3600) = d div 3600" using diff_h_eq [OF d] by simp
    have md: "py_int (fdiv (py_fmod \<bar>of_int d\<bar> 3600) 60) = (d mod 3600) div 60"
      using diff_m_eq [OF d] True by simp
    have "get_offset_str E G remote_tz =
      Inr (if d div 3600 = 0 \<and> (d mod 3600) div 60 = 0 then ''Local''
           else if (d mod 3600) div 60 = 0 then fmt_plus_d (d div 3600) @ ''h''
           else ''+'' @ fmt_d \<bar>d div 3600\<bar> @ ''h'' @ fmt_02d ((d mod 3600) div 60) @ ''m'')"
      unfolding g Let_def hd md using True by simp
    then show ?thesis unfolding d_def [symmetric] by (simp only: offset_label_nonneg [OF True])
  next
    case False
    then have n: "d < 0" by simp
    then have hd: "py_int (fdiv (of_int d) 3600) = - ((- d) div 3600)"
      using diff_h_eq [OF d] by simp
    have md: "py_int (fdiv (py_fmod \<bar>of_int d\<bar> 3600) 60) = ((- d) mod 3600) div 60"
      using diff_m_eq [OF d] n by simp
    have "get_offset_str E G remote_tz =
      Inr (if - ((- d) div 3600) = 0 \<and> ((- d) mod 3600) div 60 = 0 then ''Local''
           else if ((- d) mod 3600) div 60 = 0 then fmt_plus_d (- ((- d) div 3600)) @ ''h''
           else ''-'' @ fmt_d \<bar>- ((- d) div 3600)\<bar> @ ''h''
                @ fmt_02d (((- d) mod 3600) div 60) @ ''m'')"
      unfolding g Let_def hd md using n by simp
    then show ?thesis unfolding d_def [symmetric] by (simp only: offset_label_neg [OF n])
  qed
qed

subsection \<open>The library calls at an ordinary clock\<close>

text \<open>
  When the clock is at least two days inside the years 1 to 9999 and the system zone keeps
  one offset from a day before the clock to a day after it, \<^verbatim>\<open>datetime.now()\<close> returns
  the local reading of the clock, and \<^verbatim>\<open>astimezone\<close> converts it to the zone's reading of
  the same instant.
\<close>

lemma local_seconds_settled:
  assumes "system_zone E u = c" "\<bar>c\<bar> < 86400" "86400 \<le> u" "u < 3652059 * 86400 - 86400"
  shows "local_seconds E u = Inr (u + c)"
  using assms by (simp add: local_seconds_def Let_def abs_less_iff)

lemma datetime_now_naive_settled:
  assumes c: "\<forall>u. clock E 0 div 1000000 - 86400 \<le> u \<and> u \<le> clock E 0 div 1000000 + 86400
                \<longrightarrow> system_zone E u = c"
    and r: "\<bar>c\<bar> < 86400" "172800000000 \<le> clock E 0" "clock E 0 < DATETIME_END - 172800000000"
  shows "datetime_now_naive E = Inr \<lparr> naive_wall = clock E 0 + 1000000 * c, naive_fold = False \<rparr>"
proof -
  define t where "t = clock E 0 div 1000000"
  have t: "172800 \<le> t" "t < 3652059 * 86400 - 172800"
    using r(2,3) by (simp_all add: t_def DATETIME_END_def)
  have l1: "local_seconds E t = Inr (t + c)"
    using c r(1) t by (intro local_seconds_settled) (simp_all add: t_def)
  have l2: "local_seconds E (t - 86400) = Inr (t - 86400 + c)"
    using c r(1) t by (intro local_seconds_settled) (simp_all add: t_def)
  have "clock E 0 div 1000000 * 1000000 + clock E 0 mod 1000000 = clock E 0"
    by (rule div_mult_mod_eq)
  then have w0: "t * 1000000 + clock E 0 mod 1000000 = clock E 0"
    by (simp only: t_def)
  then have w: "(t + c) * 1000000 + clock E 0 mod 1000000 = clock E 0 + 1000000 * c"
    by (simp add: algebra_simps)
  show ?thesis
    unfolding datetime_now_naive_def Let_def t_def [symmetric]
    by (simp add: l1 l2 and_then_def w w0)
qed

lemma astimezone_settled:
  assumes c: "\<forall>u. clock E 0 div 1000000 - 86400 \<le> u \<and> u \<le> clock E 0 div 1000000 + 86400
                \<longrightarrow> system_zone E u = c"
    and r: "\<bar>c\<bar> < 86400" "172800000000 \<le> clock E 0" "clock E 0 < DATETIME_END - 172800000000"
    and z: "\<bar>z (clock E 0 div 1000000)\<bar> < 86400"
  shows "astimezone E \<lparr> naive_wall = clock E 0 + 1000000 * c, naive_fold = False \<rparr> z
         = Inr \<lparr> aware_wall = clock E 0 + 1000000 * z (clock E 0 div 1000000),
                 instant = clock E 0 \<rparr>"
proof -
  define t where "t = clock E 0 div 1000000"
  have t: "172800 \<le> t" "t < 3652059 * 86400 - 172800"
    using r(2,3) by (simp_all add: t_def DATETIME_END_def)
  have "(clock E 0 + 1000000 * c) div 1000000 = (clock E 0 div 1000000) + c"
    by (simp add: algebra_simps)
  then have wd: "(clock E 0 + 1000000 * c) div 1000000 = t + c" by (simp add: t_def)
  have sc: "system_zone E (t + c) = c" "system_zone E t = c"
    using c r(1) by (simp_all add: t_def abs_less_iff)
  have l0: "local_seconds E (t + c) = Inr (t + c + c)"
    using sc(1) r(1) t by (intro local_seconds_settled) (simp_all add: abs_less_iff)
  have l1: "local_seconds E t = Inr (t + c)"
    using sc(2) r(1) t by (intro local_seconds_settled) simp_all
  have l2: "local_seconds E (t - 86400) = Inr (t - 86400 + c)"
    using c r(1) t by (intro local_seconds_settled) (simp_all add: t_def)
  have s: "local_to_seconds E (t + c) False = Inr t"
    by (simp add: local_to_seconds_def and_then_def Let_def l0 l1 l2)
  have u: "datetime_ok (clock E 0) = Inr (clock E 0)"
    using r(2,3) by (simp add: datetime_ok_def)
  have f: "datetime_ok (clock E 0 + 1000000 * z t) = Inr (clock E 0 + 1000000 * z t)"
    using r(2,3) z by (simp add: datetime_ok_def t_def abs_less_iff DATETIME_END_def)
  show ?thesis
    unfolding astimezone_def
    using r(1)
    by (simp add: wd s sc and_then_def Let_def u f fromutc_def t_def [symmetric] abs_less_iff)
qed

lemma get_offset_str_at_clock:
  assumes "\<forall>u. clock E 0 div 1000000 - 86400 \<le> u \<and> u \<le> clock E 0 div 1000000 + 86400
             \<longrightarrow> system_zone E u = c"
    and "\<bar>c\<bar> < 86400" "172800000000 \<le> clock E 0" "clock E 0 < DATETIME_END - 172800000000"
    and "zoneinfo_db E (LOCAL_TZ G) = Found lz" "zoneinfo_db E remote_tz = Found rz"
    and "\<bar>lz (clock E 0 div 1000000)\<bar> < 86400" "\<bar>rz (clock E 0 div 1000000)\<bar> < 86400"
  shows "get_offset_str E G remote_tz
         = Inr (formatOffsetLabel_spec (whole_minutes
                  (rz (clock E 0 div 1000000) - lz (clock E 0 div 1000000))))"
proof -
  note n = datetime_now_naive_settled [OF assms(1-4)]
  note al = astimezone_settled [of E c lz, OF assms(1-4) assms(7)]
  note ar = astimezone_settled [of E c rz, OF assms(1-4) assms(8)]
  have ul: "utcoffset lz \<lparr> aware_wall = clock E 0 + 1000000 * lz (clock E 0 div 1000000),
                 instant = clock E 0 \<rparr> = Inr (lz (clock E 0 div 1000000))"
    using assms(7) by (simp add: utcoffset_def abs_less_iff)
  have ur: "utcoffset rz \<lparr> aware_wall = clock E 0 + 1000000 * rz (clock E 0 div 1000000),
                 instant = clock E 0 \<rparr> = Inr (rz (clock E 0 div 1000000))"
    using assms(8) by (simp add: utcoffset_def abs_less_iff)
  show ?thesis by (rule get_offset_str_value [OF n assms(5) al ul assms(6) ar ur])
qed

subsection \<open>The offset label\<close>

lemmas example_eval = example_env_def epoch_env_def example_db_def dark_globals_def
  guyana_globals_def America_Guyana_def Africa_Monrovia_def

lemmas label_spec_eval = formatOffsetLabel_spec_def whole_minutes_def sign_str_def
  sliderRel_spec_def sliderRel_unpadded_def

lemma example_now:
  "datetime_now_naive example_env
   = Inr \<lparr> naive_wall = 63929390400000000, naive_fold = False \<rparr>"
  by (simp add: time_eval example_eval)

lemma example_astimezone:
  "astimezone example_env \<lparr> naive_wall = 63929390400000000, naive_fold = False \<rparr> (\<lambda>t. 0)
   = Inr \<lparr> aware_wall = 63929390400000000, instant = 63929390400000000 \<rparr>"
  "astimezone example_env \<lparr> naive_wall = 63929390400000000, naive_fold = False \<rparr> (\<lambda>t. 32400)
   = Inr \<lparr> aware_wall = 63929422800000000, instant = 63929390400000000 \<rparr>"
  "astimezone example_env \<lparr> naive_wall = 63929390400000000, naive_fold = False \<rparr> (\<lambda>t. 34200)
   = Inr \<lparr> aware_wall = 63929424600000000, instant = 63929390400000000 \<rparr>"
  by (simp_all add: time_eval example_eval)

lemma epoch_now:
  "datetime_now_naive epoch_env
   = Inr \<lparr> naive_wall = 62135583300000000, naive_fold = False \<rparr>"
  by (simp add: time_eval example_eval)

lemma epoch_astimezone:
  "astimezone epoch_env \<lparr> naive_wall = 62135583300000000, naive_fold = False \<rparr> America_Guyana
   = Inr \<lparr> aware_wall = 62135583300000000, instant = 62135596800000000 \<rparr>"
  "astimezone epoch_env \<lparr> naive_wall = 62135583300000000, naive_fold = False \<rparr> Africa_Monrovia
   = Inr \<lparr> aware_wall = 62135594130000000, instant = 62135596800000000 \<rparr>"
  by (simp_all add: time_eval example_eval)

text \<open>
  Claim C3, as amended. Whenever the library calls of \<open>get_offset_str\<close> succeed, with the
  UTC offsets \<open>local_off\<close> of the local zone and \<open>remote_off\<close> of the remote zone, the
  offset label is the specification's label for \<open>diff\<close> truncated towards zero to whole
  minutes, where \<open>diff = remote_off - local_off\<close>: \<^verbatim>\<open>Local\<close> exactly when \<open>\<bar>diff\<bar> < 60\<close>,
  the signed hour count and \<^verbatim>\<open>h\<close> when the truncated difference is a whole number of
  hours, and otherwise sign, hours, \<^verbatim>\<open>h\<close>, two-digit minutes, \<^verbatim>\<open>m\<close>. For a difference
  that is a whole number of minutes this is the label of the specification for \<open>diff\<close>
  itself. (By \<open>get_offset_str_at_clock\<close> the calls succeed at every ordinary clock, and
  the offsets are those of the two zones at the instant of the clock.)
\<close>

theorem get_offset_str_whole_minutes:
  assumes "datetime_now_naive E = Inr now"
    "zoneinfo_db E (LOCAL_TZ G) = Found lz" "astimezone E now lz = Inr local_now"
    "utcoffset lz local_now = Inr local_off"
    "zoneinfo_db E remote_tz = Found rz" "astimezone E now rz = Inr remote_now"
    "utcoffset rz remote_now = Inr remote_off"
  shows "get_offset_str E G remote_tz
           = Inr (formatOffsetLabel_spec (whole_minutes (remote_off - local_off))) \<and>
         (60 dvd remote_off - local_off \<longrightarrow>
            get_offset_str E G remote_tz
              = Inr (formatOffsetLabel_spec (remote_off - local_off)))"
  using get_offset_str_value [OF assms] by (simp add: whole_minutes_dvd)

theorem get_offset_str_whole_minutes_witness:
  "get_offset_str example_env dark_globals ''Australia/Darwin'' = Inr ''+9h30m'' \<and>
   formatOffsetLabel_spec (34200 - 0) = ''+9h30m''"
proof -
  have l: "zoneinfo_db example_env (LOCAL_TZ dark_globals) = Found (\<lambda>t. 0)"
    by (simp add: example_eval)
  have r: "zoneinfo_db example_env ''Australia/Darwin'' = Found (\<lambda>t. 34200)"
    by (simp add: example_eval)
  have ul: "utcoffset (\<lambda>t. 0)
      \<lparr> aware_wall = 63929390400000000, instant = 63929390400000000 \<rparr> = Inr 0"
    by (simp add: utcoffset_def)
  have ur: "utcoffset (\<lambda>t. 34200)
      \<lparr> aware_wall = 63929424600000000, instant = 63929390400000000 \<rparr> = Inr 34200"
    by (simp add: utcoffset_def)
  have s: "formatOffsetLabel_spec (34200 - 0) = ''+9h30m''"
    by (simp add: label_spec_eval fmt_eval)
  from get_offset_str_whole_minutes
    [OF example_now l example_astimezone(1) ul r example_astimezone(3) ur]
  have "get_offset_str example_env dark_globals ''Australia/Darwin''
      = Inr (formatOffsetLabel_spec (34200 - 0))"
    by (simp add: whole_minutes_def)
  with s show ?thesis by simp
qed

text \<open>
  The claim as it is stated fails for a difference with a fraction of a minute. On a
  machine in Guyana whose clock reads 1970-01-01 00:00:00 UTC, \<^verbatim>\<open>Africa/Monrovia\<close> is 3
  hours and 30 seconds ahead of the local zone; it is labelled \<^verbatim>\<open>+3h\<close>, where the
  specification's label for a difference of 10830 seconds is \<^verbatim>\<open>+3h00m\<close>.
\<close>

theorem get_offset_str_seconds_dropped:
  "get_offset_str epoch_env guyana_globals ''Africa/Monrovia'' = Inr ''+3h'' \<and>
   Africa_Monrovia 62135596800 - America_Guyana 62135596800 = 10830 \<and>
   formatOffsetLabel_spec 10830 = ''+3h00m''"
proof -
  have l: "zoneinfo_db epoch_env (LOCAL_TZ guyana_globals) = Found America_Guyana"
    by (simp add: example_eval)
  have r: "zoneinfo_db epoch_env ''Africa/Monrovia'' = Found Africa_Monrovia"
    by (simp add: example_eval)
  have ul: "utcoffset America_Guyana
      \<lparr> aware_wall = 62135583300000000, instant = 62135596800000000 \<rparr> = Inr (- 13500)"
    by (simp add: utcoffset_def example_eval)
  have ur: "utcoffset Africa_Monrovia
      \<lparr> aware_wall = 62135594130000000, instant = 62135596800000000 \<rparr> = Inr (- 2670)"
    by (simp add: utcoffset_def example_eval)
  have "get_offset_str epoch_env guyana_globals ''Africa/Monrovia''
      = Inr (formatOffsetLabel_spec (whole_minutes (- 2670 - - 13500)))"
    by (rule get_offset_str_value [OF epoch_now l epoch_astimezone(1) ul r epoch_astimezone(2) ur])
  moreover have "formatOffsetLabel_spec (whole_minutes (- 2670 - - 13500)) = ''+3h''"
    by (simp add: label_spec_eval fmt_eval)
  moreover have "Africa_Monrovia 62135596800 - America_Guyana 62135596800 = 10830"
    by (simp add: example_eval)
  moreover have "formatOffsetLabel_spec 10830 = ''+3h00m''"
    by (simp add: label_spec_eval fmt_eval)
  ultimately show ?thesis by simp
qed

lemma get_offset_str_examples:
  "get_offset_str example_env dark_globals ''Asia/Tokyo'' = Inr ''+9h''"
  "get_offset_str example_env dark_globals ''UTC'' = Inr ''Local''"
  using get_offset_str_at_clock
      [of example_env 0 dark_globals "\<lambda>t. 0" "''Asia/Tokyo''" "\<lambda>t. 32400"]
    get_offset_str_at_clock [of example_env 0 dark_globals "\<lambda>t. 0" "''UTC''" "\<lambda>t. 0"]
  by (simp_all add: example_eval DATETIME_END_def label_spec_eval fmt_eval)

lemma get_offset_str_missing:
  "get_offset_str example_env dark_globals ''Mars/Olympus''
     = Inl (ZoneInfoNotFoundError ''Mars/Olympus'')"
proof -
  have l: "ZoneInfo example_env (LOCAL_TZ dark_globals) = Inr (\<lambda>t. 0)"
    by (simp add: ZoneInfo_def example_eval)
  have r: "ZoneInfo example_env ''Mars/Olympus''
      = Inl (ZoneInfoNotFoundError ''Mars/Olympus'')"
    by (simp add: ZoneInfo_def example_eval)
  show ?thesis
    by (simp add: get_offset_str_def example_now l example_astimezone utcoffset_def r
        and_then_def)
qed

subsection \<open>The slider label\<close>

text \<open>
  Values of \<^verbatim>\<open>timedelta(hours=h)\<close>. The last argument is the float that the literal
  \<^verbatim>\<open>0.3863475359722222\<close> denotes.
\<close>

lemma timedelta_hours_eval:
  assumes "py_int h = i" "fmul 3600000000 (h - of_int i) = p" "round_half_even p = r"
    "- 999999999 * 86400000000 \<le> i * 3600000000 + r"
    "i * 3600000000 + r < 1000000000 * 86400000000"
  shows "timedelta_hours h = Inr (i * 3600000000 + r)"
  using assms(4,5) by (simp add: timedelta_hours_def Let_def assms(1-3))

lemma slider_double: "fl 0.3863475359722222 = 6959818476160037 / 18014398509481984"
  by (simp add: float_eval)

lemma timedelta_hours_examples:
  "timedelta_hours 0 = Inr 0"
  "timedelta_hours (3 / 2) = Inr 5400000000"
  "timedelta_hours (1 / 16) = Inr 225000000"
  "timedelta_hours (- (1 / 4)) = Inr (- 900000000)"
  "timedelta_hours (6959818476160037 / 18014398509481984) = Inr 1390851130"
proof -
  show "timedelta_hours 0 = Inr 0"
    using timedelta_hours_eval [of 0 0 0 0] by (simp add: float_eval)
  show "timedelta_hours (3 / 2) = Inr 5400000000"
    using timedelta_hours_eval [of "3 / 2" 1 1800000000 1800000000] by (simp add: float_eval)
  show "timedelta_hours (1 / 16) = Inr 225000000"
    using timedelta_hours_eval [of "1 / 16" 0 225000000 225000000] by (simp add: float_eval)
  show "timedelta_hours (- (1 / 4)) = Inr (- 900000000)"
    using timedelta_hours_eval [of "- (1 / 4)" 0 "- 900000000" "- 900000000"]
    by (simp add: float_eval ceiling_def)
  show "timedelta_hours (6959818476160037 / 18014398509481984) = Inr 1390851130"
    using timedelta_hours_eval [of "6959818476160037 / 18014398509481984" 0
        "2781702259 / 2" 1390851130]
    by (simp add: float_eval)
qed

lemma slider_rel_unpadded:
  assumes "m \<noteq> 0"
  shows "(let sign = (if 0 < m then ''+'' else ''-'');
              abs_minutes = \<bar>m\<bar>;
              hours = abs_minutes div 60;
              minutes = abs_minutes mod 60
          in if hours \<noteq> 0 \<and> minutes \<noteq> 0
               then sign @ fmt_d hours @ ''h'' @ fmt_02d minutes @ ''m''
             else if hours \<noteq> 0 then sign @ fmt_d hours @ ''h''
             else sign @ fmt_d minutes @ ''m'')
         = sliderRel_unpadded m"
proof -
  have "\<bar>m\<bar> = 60 * (\<bar>m\<bar> div 60) + \<bar>m\<bar> mod 60" by simp
  then have "\<not> (\<bar>m\<bar> div 60 = 0 \<and> \<bar>m\<bar> mod 60 = 0)" using assms by linarith
  then show ?thesis by (auto simp add: sliderRel_unpadded_def Let_def)
qed

lemma format_slider_label_value:
  assumes "zoneinfo_db E (LOCAL_TZ G) = Found z" "datetime_now E z = Inr now"
    "plus_hours now hours_offset = Inr target"
  shows "format_slider_label E G hours_offset
         = Inr (strftime_HM target @ middle_dot @
                (if round_half_even (fmul hours_offset 60) = 0 then ''Now''
                 else sliderRel_unpadded (round_half_even (fmul hours_offset 60))
                      @ '' from now''))"
proof (cases "round_half_even (fmul hours_offset 60) = 0")
  case True
  then show ?thesis using assms
    by (simp add: format_slider_label_def ZoneInfo_def and_then_def Let_def)
next
  case False
  have "format_slider_label E G hours_offset
      = Inr (strftime_HM target @ middle_dot @
          (let sign = (if 0 < round_half_even (fmul hours_offset 60) then ''+'' else ''-'');
               abs_minutes = \<bar>round_half_even (fmul hours_offset 60)\<bar>;
               hours = abs_minutes div 60;
               minutes = abs_minutes mod 60
           in if hours \<noteq> 0 \<and> minutes \<noteq> 0
                then sign @ fmt_d hours @ ''h'' @ fmt_02d minutes @ ''m''
              else if hours \<noteq> 0 then sign @ fmt_d hours @ ''h''
              else sign @ fmt_d minutes @ ''m'') @ '' from now'')"
    using assms False
    by (simp add: format_slider_label_def ZoneInfo_def and_then_def Let_def)
  then show ?thesis using False by (simp only: slider_rel_unpadded [OF False] if_False)
qed

text \<open>
  Claim C6, as amended. When the local zone resolves and the target time is in the range
  of \<^verbatim>\<open>datetime\<close>, the slider label is the target wall-clock time as \<^verbatim>\<open>HH:MM\<close>, the
  separator, and then \<^verbatim>\<open>Now\<close> when \<^verbatim>\<open>round(hours_offset * 60)\<close> is 0; otherwise the relative
  part and \<^verbatim>\<open>from now\<close>, where the relative part is the sign, the hours with \<^verbatim>\<open>h\<close> when
  they are not zero, and the minutes with \<^verbatim>\<open>m\<close> when they are not zero, the minutes being
  padded to two digits only when they follow the hours.
\<close>

theorem format_slider_label_unpadded:
  assumes "zoneinfo_db E (LOCAL_TZ G) = Found z" "datetime_now E z = Inr now"
    "plus_hours now hours_offset = Inr target"
  shows "format_slider_label E G hours_offset
         = Inr (strftime_HM target @ middle_dot @
                (if round_half_even (fmul hours_offset 60) = 0 then ''Now''
                 else sliderRel_unpadded (round_half_even (fmul hours_offset 60))
                      @ '' from now''))"
  using assms by (rule format_slider_label_value)

theorem format_slider_label_unpadded_witness:
  "format_slider_label example_env dark_globals (3 / 2)
     = Inr (''13:30'' @ middle_dot @ ''+1h30m from now'')"
  using format_slider_label_unpadded
    [of example_env dark_globals "\<lambda>t. 0" 63929390400000000 "3 / 2" 63929395800000000]
  by (simp add: example_eval label_spec_eval time_eval timedelta_hours_examples float_eval
      fmt_eval)

text \<open>
  The claim as it is stated fails for an offset of less than ten minutes: for a sixteenth
  of an hour the label ends in \<^verbatim>\<open>+4m from now\<close>, where two-digit minutes would give
  \<^verbatim>\<open>+04m\<close>.
\<close>

theorem format_slider_label_four_minutes:
  "format_slider_label example_env dark_globals (1 / 16)
     = Inr (''12:03'' @ middle_dot @ ''+4m from now'') \<and>
   sliderRel_spec (round_half_even (fmul (1 / 16) 60)) = ''+04m''"
proof -
  have "format_slider_label example_env dark_globals (1 / 16)
      = Inr (''12:03'' @ middle_dot @ ''+4m from now'')"
    by (simp add: format_slider_label_def example_eval time_eval timedelta_hours_examples
        float_eval fmt_eval)
  moreover have "sliderRel_spec (round_half_even (fmul (1 / 16) 60)) = ''+04m''"
    by (simp add: label_spec_eval float_eval fmt_eval)
  ultimately show ?thesis by simp
qed

text \<open>
  Further values of the label. In the last one the product of the fraction of an hour and
  3600000000 lies just below 1390851129.5 and is rounded to it by the multiplication, so
  that the time added is 1390851130 microseconds and the target time 00:24:00.000000.
\<close>

lemma format_slider_label_examples:
  "format_slider_label example_env dark_globals 0 = Inr (''12:00'' @ middle_dot @ ''Now'')"
  "format_slider_label example_env (dark_globals \<lparr> LOCAL_TZ := ''Australia/Darwin'' \<rparr>) (- 1 / 4)
     = Inr (''21:15'' @ middle_dot @ ''-15m from now'')"
  "format_slider_label (example_env \<lparr> clock := (\<lambda>n. 63929347249148870) \<rparr>) dark_globals
       (fl 0.3863475359722222)
     = Inr (''00:24'' @ middle_dot @ ''+23m from now'')"
  by (simp_all add: format_slider_label_def example_eval time_eval timedelta_hours_examples
      float_eval fmt_eval)

section \<open>Properties of the color arithmetic\<close>

subsection \<open>Normalized colors\<close>

lemma lower_hex_facts_all:
  "list_all (\<lambda>c. is_hex_digit c \<and> \<not> is_space c \<and> spec_lower_hex c = c \<and> c \<noteq> CHR ''#'' \<and>
      0 \<le> hex_value c \<and> hex_value c < 16 \<and> digit_char (nat (hex_value c)) = c)
    ''0123456789abcdef''"
  by (simp add: is_hex_digit_def is_space_def spec_lower_hex_def hex_value_def digit_char_def)

lemma lower_hex_facts:
  assumes "is_lower_hex_digit c"
  shows "is_hex_digit c" "\<not> is_space c" "spec_lower_hex c = c" "c \<noteq> CHR ''#''"
    "0 \<le> hex_value c" "hex_value c < 16" "digit_char (nat (hex_value c)) = c"
  using assms lower_hex_facts_all unfolding is_lower_hex_digit_def list_all_iff by blast+

lemma lower_hex_string_facts:
  assumes "list_all is_lower_hex_digit r"
  shows "list_all is_hex_digit r" "map spec_lower_hex r = r"
  using assms by (induction r) (simp_all add: lower_hex_facts)

lemma six_chars: "length r = 6 \<Longrightarrow> \<exists>c1 c2 c3 c4 c5 c6. r = [c1, c2, c3, c4, c5, c6]"
  by (auto simp add: eval_nat_numeral length_Suc_conv)

lemma norm_hex_shape:
  assumes "is_norm_hex h"
  obtains c1 c2 c3 c4 c5 c6 where "h = [CHR ''#'', c1, c2, c3, c4, c5, c6]"
    "is_lower_hex_digit c1" "is_lower_hex_digit c2" "is_lower_hex_digit c3"
    "is_lower_hex_digit c4" "is_lower_hex_digit c5" "is_lower_hex_digit c6"
proof -
  from assms obtain r where h: "h = CHR ''#'' # r" "length r = 6" "list_all is_lower_hex_digit r"
    by (auto simp add: is_norm_hex_def split: list.splits)
  from six_chars [OF h(2)] obtain c1 c2 c3 c4 c5 c6 where r: "r = [c1, c2, c3, c4, c5, c6]"
    by blast
  show ?thesis using h(3) by (intro that [of c1 c2 c3 c4 c5 c6]) (simp_all add: h(1) r)
qed

lemma space_hash: "\<not> is_space (CHR ''#'')"
  by (simp add: is_space_def)

lemma normalize_hex_idem:
  assumes "is_norm_hex h"
  shows "normalize_hex (Str h) = Some h"
proof -
  from assms obtain c1 c2 c3 c4 c5 c6 where h: "h = [CHR ''#'', c1, c2, c3, c4, c5, c6]"
    and c: "is_lower_hex_digit c1" "is_lower_hex_digit c2" "is_lower_hex_digit c3"
      "is_lower_hex_digit c4" "is_lower_hex_digit c5" "is_lower_hex_digit c6"
    by (rule norm_hex_shape)
  have s: "strip [CHR ''#'', c1, c2, c3, c4, c5, c6] = [CHR ''#'', c1, c2, c3, c4, c5, c6]"
    using lower_hex_facts(2) [OF c(6)] by (simp add: strip_def space_hash)
  have "normalizeColor_spec h = Some h"
    using c unfolding h normalizeColor_spec_def s Let_def by (simp add: lower_hex_facts)
  then show ?thesis by (simp only: normalize_hex_refines)
qed

subsection \<open>\<^verbatim>\<open>hex_to_rgb\<close> and \<^verbatim>\<open>rgb_to_hex\<close>\<close>

lemma py_int16_pair:
  assumes "is_lower_hex_digit c1" "is_lower_hex_digit c2"
  shows "py_int16 [c1, c2] = Inr (16 * hex_value c1 + hex_value c2)"
  using assms by (simp add: py_int16_def lower_hex_facts)

lemma hex_to_rgb_shape:
  assumes "is_lower_hex_digit c1" "is_lower_hex_digit c2" "is_lower_hex_digit c3"
    "is_lower_hex_digit c4" "is_lower_hex_digit c5" "is_lower_hex_digit c6"
    and "(if truthy (normalize_hex v) then the (normalize_hex v) else ''#000000'')
         = [CHR ''#'', c1, c2, c3, c4, c5, c6]"
  shows "hex_to_rgb v = Inr (fdiv (of_int (16 * hex_value c1 + hex_value c2)) 255,
                             fdiv (of_int (16 * hex_value c3 + hex_value c4)) 255,
                             fdiv (of_int (16 * hex_value c5 + hex_value c6)) 255)"
  unfolding hex_to_rgb_def Let_def assms(7)
  using lower_hex_facts(4) [OF assms(1)]
  by (simp add: slice_def and_then_def
      py_int16_pair [OF assms(1,2)] py_int16_pair [OF assms(3,4)] py_int16_pair [OF assms(5,6)])

lemma hex_to_rgb_norm:
  assumes "is_lower_hex_digit c1" "is_lower_hex_digit c2" "is_lower_hex_digit c3"
    "is_lower_hex_digit c4" "is_lower_hex_digit c5" "is_lower_hex_digit c6"
    and "normalize_hex v = Some [CHR ''#'', c1, c2, c3, c4, c5, c6]"
  shows "hex_to_rgb v = Inr (fdiv (of_int (16 * hex_value c1 + hex_value c2)) 255,
                             fdiv (of_int (16 * hex_value c3 + hex_value c4)) 255,
                             fdiv (of_int (16 * hex_value c5 + hex_value c6)) 255)"
  using assms(7) by (intro hex_to_rgb_shape assms(1-6)) (simp add: truthy_def)

lemma black_norm: "is_norm_hex ''#000000''"
  by (simp add: is_norm_hex_def is_lower_hex_digit_def)

lemma hex_to_rgb_total: "\<exists>rgb. hex_to_rgb v = Inr rgb"
proof -
  define h where "h = (if truthy (normalize_hex v) then the (normalize_hex v) else ''#000000'')"
  have n: "is_norm_hex h"
  proof (cases "normalize_hex v")
    case None
    then show ?thesis by (simp add: h_def truthy_def black_norm)
  next
    case (Some a)
    then have "is_norm_hex a" by (rule normalize_hex_norm)
    then show ?thesis using Some by (auto simp add: h_def truthy_def black_norm)
  qed
  from n obtain c1 c2 c3 c4 c5 c6 where h: "h = [CHR ''#'', c1, c2, c3, c4, c5, c6]"
    and c: "is_lower_hex_digit c1" "is_lower_hex_digit c2" "is_lower_hex_digit c3"
      "is_lower_hex_digit c4" "is_lower_hex_digit c5" "is_lower_hex_digit c6"
    by (rule norm_hex_shape)
  have "(if truthy (normalize_hex v) then the (normalize_hex v) else ''#000000'')
      = [CHR ''#'', c1, c2, c3, c4, c5, c6]"
    using h by (simp only: h_def)
  from hex_to_rgb_shape [OF c this] show ?thesis by blast
qed

lemma fmt_02x_pair:
  assumes "is_lower_hex_digit c1" "is_lower_hex_digit c2"
  shows "fmt_02x (16 * hex_value c1 + hex_value c2) = [c1, c2]"
proof -
  define a where "a = nat (hex_value c1)"
  define b where "b = nat (hex_value c2)"
  note f1 = lower_hex_facts [OF assms(1)] and f2 = lower_hex_facts [OF assms(2)]
  have ab: "a < 16" "b < 16" using f1(5,6) f2(5,6) by (simp_all add: a_def b_def)
  have n: "nat (16 * hex_value c1 + hex_value c2) = 16 * a + b"
    using f1(5) f2(5) by (simp add: a_def b_def nat_add_distrib nat_mult_distrib)
  have c: "digit_char a = c1" "digit_char b = c2" using f1(7) f2(7) by (simp_all add: a_def b_def)
  have nn: "\<not> 16 * hex_value c1 + hex_value c2 < 0" using f1(5) f2(5) by simp
  have f: "fmt_02x (16 * hex_value c1 + hex_value c2) = zero_pad2 (digits 16 (16 * a + b))"
    using nn by (simp only: fmt_02x_def n if_False)
  show ?thesis
  proof (cases "a = 0")
    case True
    have "digits 16 b = [digit_char b]" using ab(2) by (subst digits.simps) simp
    then have "zero_pad2 (digits 16 (16 * a + b)) = [digit_char a, digit_char b]"
      using True by (simp add: zero_pad2_def digit_char_def)
    then show ?thesis by (simp only: f c)
  next
    case False
    then have "\<not> (16 * a + b < 16)" by simp
    then have "digits 16 (16 * a + b)
        = digits 16 ((16 * a + b) div 16) @ [digit_char ((16 * a + b) mod 16)]"
      by (subst digits.simps) simp
    moreover have "(16 * a + b) div 16 = a" "(16 * a + b) mod 16 = b" using ab(2) by simp_all
    moreover have "digits 16 a = [digit_char a]" using ab(1) by (subst digits.simps) simp
    ultimately have "digits 16 (16 * a + b) = [digit_char a, digit_char b]" by simp
    then have "zero_pad2 (digits 16 (16 * a + b)) = [digit_char a, digit_char b]"
      by (simp add: zero_pad2_def)
    then show ?thesis by (simp only: f c)
  qed
qed

lemmas hex_eval = hex_to_rgb_def and_then_def py_int16_def slice_def hex_value_def

text \<open>
  The truncation in \<open>rgb_to_hex\<close> loses nothing on the 256 floats that \<open>hex_to_rgb\<close> can
  produce. This is a fact about the individual roundings, not a consequence of the error
  bound of one rounding, so it is checked value by value.
\<close>

lemma channel_round_trip_0: "list_all channel_round_trip [0..63]"
  by (simp add: upto.simps channel_round_trip_def float_eval)

lemma channel_round_trip_64: "list_all channel_round_trip [64..127]"
  by (simp add: upto.simps channel_round_trip_def float_eval)

lemma channel_round_trip_128: "list_all channel_round_trip [128..191]"
  by (simp add: upto.simps channel_round_trip_def float_eval)

lemma channel_round_trip_192: "list_all channel_round_trip [192..255]"
  by (simp add: upto.simps channel_round_trip_def float_eval)

lemma channel_round_trip_all:
  assumes "0 \<le> n" "n \<le> 255"
  shows "channel_round_trip n"
proof -
  have "n \<in> {0..63} \<or> n \<in> {64..127} \<or> n \<in> {128..191} \<or> n \<in> {192..255}"
    using assms by auto
  then show ?thesis
    using channel_round_trip_0 channel_round_trip_64 channel_round_trip_128
      channel_round_trip_192
    unfolding list_all_iff set_upto by blast
qed

lemma channel_to_hex:
  assumes "is_lower_hex_digit c1" "is_lower_hex_digit c2"
  shows "fmt_02x (py_int (fmul (fdiv (of_int (16 * hex_value c1 + hex_value c2)) 255) 255))
         = [c1, c2]"
proof -
  note f1 = lower_hex_facts [OF assms(1)] and f2 = lower_hex_facts [OF assms(2)]
  have "channel_round_trip (16 * hex_value c1 + hex_value c2)"
    using f1(5,6) f2(5,6) by (intro channel_round_trip_all) simp_all
  then show ?thesis by (simp only: channel_round_trip_def fmt_02x_pair [OF assms])
qed

lemma rgb_to_hex_norm:
  assumes "is_lower_hex_digit c1" "is_lower_hex_digit c2" "is_lower_hex_digit c3"
    "is_lower_hex_digit c4" "is_lower_hex_digit c5" "is_lower_hex_digit c6"
  shows "rgb_to_hex (fdiv (of_int (16 * hex_value c1 + hex_value c2)) 255,
                     fdiv (of_int (16 * hex_value c3 + hex_value c4)) 255,
                     fdiv (of_int (16 * hex_value c5 + hex_value c6)) 255)
         = [CHR ''#'', c1, c2, c3, c4, c5, c6]"
  by (simp only: rgb_to_hex.simps channel_to_hex [OF assms(1,2)]
      channel_to_hex [OF assms(3,4)] channel_to_hex [OF assms(5,6)] append.simps)

lemma hex_round_trip_value:
  assumes "normalize_hex (Str s) = Some h"
  shows "\<exists>rgb. hex_to_rgb (Str s) = Inr rgb \<and> rgb_to_hex rgb = h"
proof -
  have "is_norm_hex h" using assms by (rule normalize_hex_norm)
  then obtain c1 c2 c3 c4 c5 c6 where h: "h = [CHR ''#'', c1, c2, c3, c4, c5, c6]"
    and c: "is_lower_hex_digit c1" "is_lower_hex_digit c2" "is_lower_hex_digit c3"
      "is_lower_hex_digit c4" "is_lower_hex_digit c5" "is_lower_hex_digit c6"
    by (rule norm_hex_shape)
  have "normalize_hex (Str s) = Some [CHR ''#'', c1, c2, c3, c4, c5, c6]"
    using assms by (simp only: h)
  from hex_to_rgb_norm [OF c this] rgb_to_hex_norm [OF c] show ?thesis
    by (simp only: h) blast
qed

text \<open>
  Claim C4. For every string that \<open>normalize_hex\<close> accepts (six hexadecimal digits of
  either case, with or without \<^verbatim>\<open>#\<close>), \<open>hex_to_rgb\<close> succeeds and \<open>rgb_to_hex\<close> of its result
  is the normalized string: no channel deviates, although \<open>rgb_to_hex\<close> truncates.
\<close>

theorem hex_round_trip:
  "normalize_hex (Str s) = Some h \<Longrightarrow>
   \<exists>rgb. hex_to_rgb (Str s) = Inr rgb \<and> rgb_to_hex rgb = h"
  by (rule hex_round_trip_value)

theorem hex_round_trip_witness:
  "normalize_hex (Str ''A9B1d6'') = Some ''#a9b1d6'' \<and>
   hex_to_rgb (Str ''A9B1d6'') = Inr (fdiv 169 255, fdiv 177 255, fdiv 214 255) \<and>
   rgb_to_hex (fdiv 169 255, fdiv 177 255, fdiv 214 255) = ''#a9b1d6''"
proof -
  have n: "normalize_hex (Str ''A9B1d6'') = Some ''#a9b1d6''"
    by (simp add: color_eval)
  have h: "hex_to_rgb (Str ''A9B1d6'') = Inr (fdiv 169 255, fdiv 177 255, fdiv 214 255)"
    by (simp add: hex_eval n truthy_def is_hex_digit_def del: normalize_hex.simps)
  from hex_round_trip [OF n] h n show ?thesis by simp
qed

section \<open>Properties of the semantic theme\<close>

subsection \<open>No theme makes \<open>build_semantic_theme\<close> raise\<close>

lemma mix_hex_total: "\<exists>s. mix_hex a b t = Inr s"
proof -
  obtain ra where ra: "hex_to_rgb a = Inr ra" using hex_to_rgb_total by blast
  obtain rb where rb: "hex_to_rgb b = Inr rb" using hex_to_rgb_total by blast
  show ?thesis by (simp add: mix_hex_def and_then_def ra rb)
qed

lemma is_light_theme_total: "\<exists>l. is_light_theme b = Inr l"
proof -
  obtain r where r: "hex_to_rgb (Str b) = Inr r" using hex_to_rgb_total by blast
  show ?thesis
    by (cases r) (simp add: is_light_theme_def relative_luminance_def and_then_def r)
qed

lemma build_semantic_theme_total: "\<exists>p. build_semantic_theme theme = Inr p"
proof -
  define bg' where "bg' = pick_theme_color theme [''background''] (Str ''#1a1b26'')"
  define fg' where
    "fg' = pick_theme_color theme [''foreground'', ''color15'', ''color7''] (Str ''#a9b1d6'')"
  define accent' where "accent' = pick_theme_color theme
             [''accent'', ''color4'', ''color12'', ''selection_background''] (Str ''#7aa2f7'')"
  define day_seed where
    "day_seed = pick_theme_color theme [''color11'', ''color3'', ''accent''] (Str accent')"
  define night_seed where
    "night_seed = pick_theme_color theme [''color4'', ''accent'', ''color12''] (Str accent')"
  obtain light where l: "is_light_theme bg' = Inr light"
    using is_light_theme_total by blast
  obtain d where d: "mix_hex (Str fg') (Str bg') (if light then fl 0.44 else fl 0.5) = Inr d"
    using mix_hex_total by blast
  obtain s1 where s1:
    "mix_hex (Str bg') (Str fg') (if light then fl 0.09 else fl 0.11) = Inr s1"
    using mix_hex_total by blast
  obtain s2 where s2:
    "mix_hex (Str bg') (Str fg') (if light then fl 0.16 else fl 0.2) = Inr s2"
    using mix_hex_total by blast
  obtain dy where dy:
    "mix_hex (Str day_seed) (Str ''#ffffff'') (if light then fl 0.16 else fl 0.28) = Inr dy"
    using mix_hex_total by blast
  obtain nt where nt:
    "mix_hex (Str bg') (Str night_seed) (if light then fl 0.42 else fl 0.34) = Inr nt"
    using mix_hex_total by blast
  show ?thesis
    unfolding build_semantic_theme_def Let_def
    unfolding bg'_def [symmetric] fg'_def [symmetric] accent'_def [symmetric]
      day_seed_def [symmetric] night_seed_def [symmetric]
    by (simp only: l d s1 s2 dy nt and_then_def sum.case) blast
qed

subsection \<open>The palette of the empty theme\<close>

lemma pick_theme_color_empty:
  "is_norm_hex fallback \<Longrightarrow> pick_theme_color Map.empty keys (Str fallback) = fallback"
proof (induction keys)
  case Nil
  then have "fallback \<noteq> []" by (auto simp add: is_norm_hex_def)
  with Nil show ?case by (simp add: normalize_hex_idem truthy_def del: normalize_hex.simps)
next
  case (Cons k keys)
  have "normalize_hex (theme_get Map.empty (lower k) (Str '''')) = None"
    by (simp add: theme_get_def color_eval)
  with Cons show ?case by (simp add: truthy_def del: normalize_hex.simps)
qed

lemma seeds_norm:
  "is_norm_hex ''#1a1b26''" "is_norm_hex ''#a9b1d6''" "is_norm_hex ''#7aa2f7''"
  "is_norm_hex ''#c0caf5''" "is_norm_hex ''#ef4444''" "is_norm_hex ''#ffffff''"
  by (simp_all add: is_norm_hex_def is_lower_hex_digit_def)

lemma seeds_rgb:
  "hex_to_rgb (Str ''#1a1b26'') = Inr (fdiv 26 255, fdiv 27 255, fdiv 38 255)"
  "hex_to_rgb (Str ''#a9b1d6'') = Inr (fdiv 169 255, fdiv 177 255, fdiv 214 255)"
  "hex_to_rgb (Str ''#7aa2f7'') = Inr (fdiv 122 255, fdiv 162 255, fdiv 247 255)"
  "hex_to_rgb (Str ''#ffffff'') = Inr (fdiv 255 255, fdiv 255 255, fdiv 255 255)"
  by (simp_all add: hex_eval normalize_hex_idem seeds_norm truthy_def is_hex_digit_def
      del: normalize_hex.simps)

lemma mix_dim: "mix_hex (Str ''#a9b1d6'') (Str ''#1a1b26'') (fl 0.5) = Inr ''#61657e''"
  by (simp add: mix_hex_def and_then_def seeds_rgb float_eval fmt_eval)

lemma mix_surface: "mix_hex (Str ''#1a1b26'') (Str ''#a9b1d6'') (fl 0.11) = Inr ''#292b39''"
  by (simp add: mix_hex_def and_then_def seeds_rgb float_eval fmt_eval)

lemma mix_surface2: "mix_hex (Str ''#1a1b26'') (Str ''#a9b1d6'') (fl 0.2) = Inr ''#363949''"
  by (simp add: mix_hex_def and_then_def seeds_rgb float_eval fmt_eval)

lemma mix_day: "mix_hex (Str ''#7aa2f7'') (Str ''#ffffff'') (fl 0.28) = Inr ''#9fbcf9''"
  by (simp add: mix_hex_def and_then_def seeds_rgb float_eval fmt_eval)

lemma mix_night: "mix_hex (Str ''#1a1b26'') (Str ''#7aa2f7'') (fl 0.34) = Inr ''#3a486d''"
  by (simp add: mix_hex_def and_then_def seeds_rgb float_eval fmt_eval)

subsection \<open>The fallback background is dark\<close>

text \<open>
  The power in \<open>linear\<close> is not evaluated: for a base between 0 and 1 and an exponent of at
  least 1 it is at most the base, and rounding is monotone.
\<close>

lemma linear_quarter:
  assumes "fl 0.04045 < c"
    and "0 < fdiv (fadd c (fl 0.055)) (fl 1.055)" "fdiv (fadd c (fl 0.055)) (fl 1.055) \<le> 1 / 4"
  shows "0 \<le> linear c \<and> linear c \<le> 1 / 4"
proof -
  define x where "x = fdiv (fadd c (fl 0.055)) (fl 1.055)"
  have x: "0 < x" "x \<le> 1 / 4" using assms(2,3) by (simp_all add: x_def)
  have g: "(1::real) \<le> fl 2.4" by (simp add: float_eval)
  have l: "linear c = fl (x powr fl 2.4)"
    using assms(1) by (simp add: linear_def py_pow_def x_def)
  have "x powr fl 2.4 \<le> x powr 1" using x g by (intro powr_mono') simp_all
  then have "x powr fl 2.4 \<le> 1 / 4" using x by simp
  then have "fl (x powr fl 2.4) \<le> fl (1 / 4)" by (rule fl_mono)
  moreover have "fl (1 / 4) = 1 / 4" by (simp add: float_eval)
  moreover have "0 \<le> fl (x powr fl 2.4)" by (intro fl_nonneg) simp
  ultimately show ?thesis by (simp add: l)
qed

lemma fadd_mono: "a \<le> a' \<Longrightarrow> b \<le> b' \<Longrightarrow> fadd a b \<le> fadd a' b'"
  unfolding fadd_def by (intro fl_mono add_mono)

lemma fmul_mono_left: "0 \<le> a \<Longrightarrow> x \<le> x' \<Longrightarrow> fmul a x \<le> fmul a x'"
  unfolding fmul_def by (intro fl_mono mult_left_mono)

lemma luminance_mono:
  assumes "0 \<le> a" "0 \<le> b" "0 \<le> c" "x \<le> x'" "y \<le> y'" "z \<le> z'"
  shows "fadd (fadd (fmul a x) (fmul b y)) (fmul c z)
         \<le> fadd (fadd (fmul a x') (fmul b y')) (fmul c z')"
  by (intro fadd_mono fmul_mono_left assms)

lemma linear_26: "0 \<le> linear (fdiv 26 255) \<and> linear (fdiv 26 255) \<le> 1 / 4"
  by (rule linear_quarter) (simp_all add: float_eval)

lemma linear_27: "0 \<le> linear (fdiv 27 255) \<and> linear (fdiv 27 255) \<le> 1 / 4"
  by (rule linear_quarter) (simp_all add: float_eval)

lemma linear_38: "0 \<le> linear (fdiv 38 255) \<and> linear (fdiv 38 255) \<le> 1 / 4"
  by (rule linear_quarter) (simp_all add: float_eval)

lemma luminance_weights: "0 \<le> fl 0.2126" "0 \<le> fl 0.7152" "0 \<le> fl 0.0722"
  by (simp_all add: fl_nonneg)

lemma luminance_quarter:
  "fadd (fadd (fmul (fl 0.2126) (1 / 4)) (fmul (fl 0.7152) (1 / 4))) (fmul (fl 0.0722) (1 / 4))
   \<le> fl 0.46"
  by (simp add: float_eval)

lemma fallback_is_dark: "is_light_theme ''#1a1b26'' = Inr False"
proof -
  have "fadd (fadd (fmul (fl 0.2126) (linear (fdiv 26 255)))
                   (fmul (fl 0.7152) (linear (fdiv 27 255))))
             (fmul (fl 0.0722) (linear (fdiv 38 255)))
        \<le> fadd (fadd (fmul (fl 0.2126) (1 / 4)) (fmul (fl 0.7152) (1 / 4)))
               (fmul (fl 0.0722) (1 / 4))"
    using linear_26 linear_27 linear_38 by (intro luminance_mono luminance_weights) simp_all
  also note luminance_quarter
  finally show ?thesis
    by (simp add: is_light_theme_def relative_luminance_def seeds_rgb and_then_def)
qed

subsection \<open>The palette\<close>

lemma build_semantic_theme_empty:
  "build_semantic_theme Map.empty
   = Inr \<lparr> bg = ''#1a1b26'', fg = ''#a9b1d6'', accent = ''#7aa2f7'', cursor = ''#c0caf5'',
           dim = ''#61657e'', surface = ''#292b39'', surface2 = ''#363949'',
           day = ''#9fbcf9'', night = ''#3a486d'', red = ''#ef4444'',
           daylight_contrast = fl 1.6, daylight_gamma = fl 1.35 \<rparr>"
  unfolding build_semantic_theme_def Let_def
  by (simp only: pick_theme_color_empty seeds_norm fallback_is_dark and_then_def sum.case
      if_False mix_dim mix_surface mix_surface2 mix_day mix_night)

text \<open>
  Claim C1. For the empty theme \<open>build_semantic_theme\<close> returns the four seed colors, the
  red, and the colors that \<open>mix_hex\<close> derives from the seeds with the ratios of a dark
  theme; the background \<^verbatim>\<open>#1a1b26\<close> is classified as dark, so that the contrast is 1.6
  and the gamma 1.35. For every theme \<open>build_semantic_theme\<close> returns a palette: it never
  raises.
\<close>

theorem build_semantic_theme_fallback:
  "build_semantic_theme Map.empty
   = Inr \<lparr> bg = ''#1a1b26'', fg = ''#a9b1d6'', accent = ''#7aa2f7'', cursor = ''#c0caf5'',
           dim = ''#61657e'', surface = ''#292b39'', surface2 = ''#363949'',
           day = ''#9fbcf9'', night = ''#3a486d'', red = ''#ef4444'',
           daylight_contrast = fl 1.6, daylight_gamma = fl 1.35 \<rparr> \<and>
   is_light_theme ''#1a1b26'' = Inr False \<and>
   mix_hex (Str ''#a9b1d6'') (Str ''#1a1b26'') (fl 0.5) = Inr ''#61657e'' \<and>
   mix_hex (Str ''#1a1b26'') (Str ''#a9b1d6'') (fl 0.11) = Inr ''#292b39'' \<and>
   mix_hex (Str ''#1a1b26'') (Str ''#a9b1d6'') (fl 0.2) = Inr ''#363949'' \<and>
   mix_hex (Str ''#7aa2f7'') (Str ''#ffffff'') (fl 0.28) = Inr ''#9fbcf9'' \<and>
   mix_hex (Str ''#1a1b26'') (Str ''#7aa2f7'') (fl 0.34) = Inr ''#3a486d'' \<and>
   (\<forall>theme. \<exists>p. build_semantic_theme theme = Inr p)"
  using build_semantic_theme_empty fallback_is_dark mix_dim mix_surface mix_surface2 mix_day
    mix_night build_semantic_theme_total
  by (intro conjI allI)

theorem build_semantic_theme_fallback_witness:
  "\<exists>p. build_semantic_theme [''background'' \<mapsto> Str ''#FFFFFF'', ''color1'' \<mapsto> NonStr] = Inr p"
  using build_semantic_theme_fallback by blast

end
